theory Spec2Isabelle
  imports Complex_Main "HOL-Library.AList" "HOL-Library.Word"
begin

section \<open>JavaScript primitives used by the sources\<close>

text \<open>
  Strings are lists of 8-bit characters, so the model covers strings whose code units
  are below 256. A JavaScript Number that holds an integer or NaN is an
  \<open>int option\<close>, \<open>None\<close> being NaN; the integer is exact, which agrees with the
  double of the source for magnitudes below \<open>2^53\<close> (every page count and every
  millisecond clock value).
\<close>

definition isWhiteSpace :: "char \<Rightarrow> bool" where
  \<comment> \<open>WhiteSpace and LineTerminator code units below 256: TAB, LF, VT, FF, CR, SP, NBSP\<close>
  "isWhiteSpace c =
     (c \<in> set [CHR 0x09, CHR 0x0A, CHR 0x0B, CHR 0x0C, CHR 0x0D, CHR '' '', CHR 0xA0])"

definition js_trim :: "string \<Rightarrow> string" where
  \<comment> \<open>\<open>String.prototype.trim\<close>\<close>
  "js_trim s = rev (dropWhile isWhiteSpace (rev (dropWhile isWhiteSpace s)))"

fun js_split :: "char \<Rightarrow> string \<Rightarrow> string list" where
  \<comment> \<open>\<open>String.prototype.split\<close> with a one-character separator; \<open>''.split(sep)\<close> is \<open>['']\<close>\<close>
  "js_split sep [] = [[]]"
| "js_split sep (c # cs) =
     (if c = sep then [] # js_split sep cs
      else (case js_split sep cs of [] \<Rightarrow> [[c]] | p # ps \<Rightarrow> (c # p) # ps))"

fun startsWith :: "string \<Rightarrow> string \<Rightarrow> bool" where
  \<comment> \<open>\<open>s.startsWith(p)\<close>, arguments in the order \<open>startsWith p s\<close>\<close>
  "startsWith [] s = True"
| "startsWith (p # ps) [] = False"
| "startsWith (p # ps) (c # cs) = (p = c \<and> startsWith ps cs)"

fun js_includes :: "string \<Rightarrow> string \<Rightarrow> bool" where
  \<comment> \<open>\<open>s.includes(p)\<close> on strings, arguments in the order \<open>js_includes p s\<close>\<close>
  "js_includes p [] = (p = [])"
| "js_includes p (c # cs) = (startsWith p (c # cs) \<or> js_includes p cs)"

definition digitValue :: "char \<Rightarrow> nat option" where
  \<comment> \<open>the value of a digit or letter as \<open>parseInt\<close> reads it\<close>
  "digitValue c =
     (let n = (of_char c :: nat) in
      if 48 \<le> n \<and> n \<le> 57 then Some (n - 48)
      else if 97 \<le> n \<and> n \<le> 122 then Some (n - 87)
      else if 65 \<le> n \<and> n \<le> 90 then Some (n - 55)
      else None)"

definition isRadixDigit :: "nat \<Rightarrow> char \<Rightarrow> bool" where
  "isRadixDigit R c = (case digitValue c of None \<Rightarrow> False | Some d \<Rightarrow> d < R)"

definition mathInt :: "nat \<Rightarrow> string \<Rightarrow> int" where
  "mathInt R Z =
     foldl (\<lambda>acc c. acc * int R + (case digitValue c of None \<Rightarrow> 0 | Some d \<Rightarrow> int d)) 0 Z"

definition parseInt :: "string \<Rightarrow> int option" where
  \<comment> \<open>\<open>parseInt(string)\<close> with no radix argument: leading white space is skipped, a sign
      is read, a \<open>0x\<close>/\<open>0X\<close> prefix selects radix 16, the longest run of digits is
      converted, and no digit at all is NaN\<close>
  "parseInt inputString =
     (let S = dropWhile isWhiteSpace inputString;
          sign = (if take 1 S = ''-'' then - 1 else 1);
          S1 = (if take 1 S = ''+'' \<or> take 1 S = ''-'' then drop 1 S else S);
          hex = (take 2 S1 = ''0x'' \<or> take 2 S1 = ''0X'');
          R = (if hex then 16 else 10);
          S2 = (if hex then drop 2 S1 else S1);
          Z = takeWhile (isRadixDigit R) S2
      in if Z = [] then None else Some (sign * mathInt R Z))"

definition num_or :: "int option \<Rightarrow> int \<Rightarrow> int" where
  \<comment> \<open>\<open>a || b\<close> on Numbers: NaN and 0 are falsy\<close>
  "num_or a b = (case a of None \<Rightarrow> b | Some v \<Rightarrow> if v = 0 then b else v)"

definition str_or :: "string option \<Rightarrow> string \<Rightarrow> string" where
  \<comment> \<open>\<open>a || b\<close> on a possibly undefined string: undefined and \<open>''\<close> are falsy\<close>
  "str_or a b = (case a of None \<Rightarrow> b | Some v \<Rightarrow> if v = [] then b else v)"

definition truthy :: "string option \<Rightarrow> bool" where
  \<comment> \<open>truthiness of a possibly undefined string\<close>
  "truthy a = (case a of None \<Rightarrow> False | Some v \<Rightarrow> v \<noteq> [])"

datatype js_error =
    Error string  \<comment> \<open>\<open>throw new Error(message)\<close> of the sources\<close>
  | LibraryError  \<comment> \<open>an exception raised inside a library call (fs, pdf-lib)\<close>
  | ReplyError string  \<comment> \<open>the awaited \<open>message.reply\<close> rejected with this message\<close>


section \<open>PDF service: page ranges, split, remove, extract\<close>

text \<open>
  \<open>parsePageRange\<close> (pdfService.js). The inner \<open>for\<close> loop over \<open>i\<close> is
  \<open>range_loop\<close>; one iteration of the outer \<open>for (const part of parts)\<close> is
  \<open>parse_part\<close>, which receives and returns the array \<open>pages\<close>.
\<close>

function range_loop :: "int \<Rightarrow> int \<Rightarrow> int \<Rightarrow> int list \<Rightarrow> int list" where
  "range_loop i endNum totalPages pages =
     (if i \<le> endNum \<and> i \<le> totalPages
      then range_loop (i + 1) endNum totalPages
             (if i \<ge> 1 \<and> i \<notin> set pages then pages @ [i] else pages)
      else pages)"
  by pat_completeness auto
termination
  by (relation "measure (\<lambda>(i, endNum, totalPages, pages). nat (min endNum totalPages + 1 - i))")
     auto

declare range_loop.simps [simp del]

definition parse_part :: "int \<Rightarrow> int list \<Rightarrow> string \<Rightarrow> int list" where
  "parse_part totalPages pages part =
     (let trimmed = js_trim part in
      if CHR ''-'' \<in> set trimmed then
        (case map js_trim (js_split CHR ''-'' trimmed) of
           start # end # _ \<Rightarrow>
             (let startNum = num_or (parseInt start) 1;
                  endNum = (if end \<noteq> [] then num_or (parseInt end) totalPages else totalPages)
              in range_loop startNum endNum totalPages pages)
         | _ \<Rightarrow> pages)
      else
        (case parseInt trimmed of
           None \<Rightarrow> pages
         | Some pageNum \<Rightarrow>
             if pageNum \<ge> 1 \<and> pageNum \<le> totalPages \<and> pageNum \<notin> set pages
             then pages @ [pageNum] else pages))"

definition parsePageRange :: "string \<Rightarrow> int \<Rightarrow> int list" where
  "parsePageRange pageRange totalPages =
     sort (foldl (parse_part totalPages) [] (js_split CHR '','' pageRange))"

text \<open>
  The file system and pdf-lib as seen by one call of the service: whether
  \<open>verifyFile(pdfPath)\<close> holds, the page count of the loaded document (\<open>None\<close> when
  reading or loading throws), whether building, saving and writing the new document
  succeeds, and whether \<open>verifyFile(outputPath)\<close> holds afterwards. A successful call
  is modelled by what the output document contains: the 0-based indices handed to
  \<open>copyPages\<close>, in order.
\<close>

record pdf_io =
  input_ok :: bool
  page_count :: "int option"
  save_ok :: bool
  output_ok :: bool

definition splitPDF :: "pdf_io \<Rightarrow> string \<Rightarrow> js_error + int list" where
  "splitPDF io pageRange =
     (if \<not> input_ok io then Inl (Error ''Input PDF not found'')
      else case page_count io of
        None \<Rightarrow> Inl LibraryError
      | Some totalPages \<Rightarrow>
          (let pages = parsePageRange pageRange totalPages in
           if length pages = 0 then Inl (Error ''Invalid page range'')
           else if \<not> save_ok io then Inl LibraryError
           else if \<not> output_ok io then Inl (Error ''Failed to create split PDF'')
           else Inr (map (\<lambda>p. p - 1) pages)))"

function keep_loop :: "int \<Rightarrow> int \<Rightarrow> int list \<Rightarrow> int list \<Rightarrow> int list" where
  "keep_loop i totalPages pagesToRemove pagesToKeep =
     (if i \<le> totalPages
      then keep_loop (i + 1) totalPages pagesToRemove
             (if i \<notin> set pagesToRemove then pagesToKeep @ [i - 1] else pagesToKeep)
      else pagesToKeep)"
  by pat_completeness auto
termination
  by (relation "measure (\<lambda>(i, totalPages, pagesToRemove, pagesToKeep). nat (totalPages + 1 - i))")
     auto

declare keep_loop.simps [simp del]

definition removePages :: "pdf_io \<Rightarrow> string \<Rightarrow> js_error + int list" where
  "removePages io pageRange =
     (if \<not> input_ok io then Inl (Error ''Input PDF not found'')
      else case page_count io of
        None \<Rightarrow> Inl LibraryError
      | Some totalPages \<Rightarrow>
          (let pagesToRemove = parsePageRange pageRange totalPages;
               pagesToKeep = keep_loop 1 totalPages pagesToRemove []
           in
           if length pagesToKeep = 0 then Inl (Error ''Cannot remove all pages'')
           else if \<not> save_ok io then Inl LibraryError
           else if \<not> output_ok io then Inl (Error ''Failed to create modified PDF'')
           else Inr pagesToKeep))"

definition extractPages :: "pdf_io \<Rightarrow> string \<Rightarrow> js_error + int list" where
  "extractPages io pageRange = splitPDF io pageRange"



section \<open>PDF edit service: the page selection of rotatePDF\<close>

text \<open>
  \<open>rotatePDF\<close> parses its page range inline. \<open>rotate_loop\<close> is the inner
  \<open>for\<close> loop, \<open>rotate_part\<close> one iteration of the loop over \<open>parts\<close>, and
  \<open>pagesToRotate\<close> the whole block that fills the array of that name with 0-based
  indices. \<open>parseInt\<close> is applied to both fields of a range; with a NaN start,
  \<open>start - 1\<close> is NaN and the loop condition \<open>i < ...\<close> is false at once.
  The loop runs up to the end of the range, not up to the page count. Its counter is an
  exact integer here; the double of the source agrees with it as long as the numbers of
  the selector are below \<open>2^53\<close> (\<open>range_numbers_exact\<close>), and beyond that the
  model says nothing about how long the source's loop runs.
\<close>

function rotate_loop :: "int \<Rightarrow> int \<Rightarrow> int \<Rightarrow> int list \<Rightarrow> int list" where
  "rotate_loop i bound totalPages pagesToRotate =
     (if i < bound
      then rotate_loop (i + 1) bound totalPages
             (if i \<ge> 0 \<and> i < totalPages then pagesToRotate @ [i] else pagesToRotate)
      else pagesToRotate)"
  by pat_completeness auto
termination
  by (relation "measure (\<lambda>(i, bound, totalPages, pagesToRotate). nat (bound - i))") auto

declare rotate_loop.simps [simp del]

definition rotate_part :: "int \<Rightarrow> int list \<Rightarrow> string \<Rightarrow> int list" where
  "rotate_part totalPages pagesToRotate part =
     (let trimmed = js_trim part in
      if CHR ''-'' \<in> set trimmed then
        (case map (\<lambda>s. parseInt (js_trim s)) (js_split CHR ''-'' trimmed) of
           start # end # _ \<Rightarrow>
             (case start of
                None \<Rightarrow> pagesToRotate
              | Some startNum \<Rightarrow>
                  rotate_loop (startNum - 1) (num_or end totalPages) totalPages pagesToRotate)
         | _ \<Rightarrow> pagesToRotate)
      else
        (case parseInt trimmed of
           None \<Rightarrow> pagesToRotate
         | Some n \<Rightarrow>
             (let pageNum = n - 1 in
              if pageNum \<ge> 0 \<and> pageNum < totalPages
              then pagesToRotate @ [pageNum] else pagesToRotate)))"

definition pagesToRotate :: "string \<Rightarrow> int \<Rightarrow> int list" where
  "pagesToRotate pageRange totalPages =
     (if pageRange = ''all'' then [0..totalPages - 1]
      else foldl (rotate_part totalPages) [] (js_split CHR '','' pageRange))"

definition rotatePDF :: "pdf_io \<Rightarrow> bool \<Rightarrow> int option \<Rightarrow> string \<Rightarrow> js_error + int list" where
  \<comment> \<open>\<open>setRotation_ok\<close> tells whether pdf-lib accepts the object \<open>{ angle: ... }\<close> that
      the loop over \<open>pagesToRotate\<close> hands to \<open>page.setRotation\<close>; the call is made
      only if a page is selected. The result lists the pages whose rotation is increased
      by \<open>angle\<close>, once per entry\<close>
  "rotatePDF io setRotation_ok angle pageRange =
     (if \<not> input_ok io then Inl (Error ''Input PDF not found'')
      else if angle \<notin> set [Some 90, Some 180, Some 270]
        then Inl (Error ''Invalid rotation angle. Use 90, 180, or 270'')
      else case page_count io of
        None \<Rightarrow> Inl LibraryError
      | Some totalPages \<Rightarrow>
          (let selected = pagesToRotate pageRange totalPages in
           if selected \<noteq> [] \<and> \<not> setRotation_ok then Inl LibraryError
           else if \<not> save_ok io then Inl LibraryError
           else if \<not> output_ok io then Inl (Error ''Failed to create rotated PDF'')
           else Inr selected))"

definition range_starts_numeric :: "string \<Rightarrow> bool" where
  \<comment> \<open>every comma-separated token that contains a dash has a first field that
      \<open>parseInt\<close> reads as a number\<close>
  "range_starts_numeric pageRange =
     list_all
       (\<lambda>part. if CHR ''-'' \<in> set (js_trim part)
               then parseInt (js_trim (hd (js_split CHR ''-'' (js_trim part)))) \<noteq> None
               else True)
       (js_split CHR '','' pageRange)"


definition range_numbers_exact :: "string \<Rightarrow> bool" where
  \<comment> \<open>every number written in the selector is below \<open>2^53\<close>, so that the counter of
      \<open>rotatePDF\<close>'s loop, a double in the source, counts as the integers do\<close>
  "range_numbers_exact pageRange =
     list_all
       (\<lambda>part. list_all
                 (\<lambda>field. case parseInt (js_trim field) of
                             None \<Rightarrow> True
                           | Some v \<Rightarrow> v < 2 ^ 53)
                 (js_split CHR ''-'' (js_trim part)))
       (js_split CHR '','' pageRange)"


section \<open>PDF security service: comparePDFs\<close>

type_synonym bytes = "8 word list"

record pdf_fs =
  verifyFile :: "string \<Rightarrow> bool"
  readFile :: "string \<Rightarrow> bytes option"  \<comment> \<open>\<open>None\<close> when reading throws\<close>
  loadPageCount :: "bytes \<Rightarrow> int option"  \<comment> \<open>\<open>PDFDocument.load\<close> and \<open>getPageCount\<close>; \<open>None\<close> when loading throws\<close>

record comparison =
  pageCountMatch :: bool
  pageCount1 :: int
  pageCount2 :: int
  fileSize1 :: nat
  fileSize2 :: nat
  fileSizeMatch :: bool
  identical :: bool

definition every_byte_equal :: "bytes \<Rightarrow> bytes \<Rightarrow> bool" where
  \<comment> \<open>\<open>pdfBytes1.every((byte, index) => byte === pdfBytes2[index])\<close>; an index past the
      end of \<open>pdfBytes2\<close> reads \<open>undefined\<close>, which equals no byte\<close>
  "every_byte_equal pdfBytes1 pdfBytes2 =
     list_all (\<lambda>(index, byte). index < length pdfBytes2 \<and> byte = pdfBytes2 ! index)
       (enumerate 0 pdfBytes1)"

definition comparePDFs :: "pdf_fs \<Rightarrow> string \<Rightarrow> string \<Rightarrow> js_error + comparison" where
  "comparePDFs fs pdfPath1 pdfPath2 =
     (if \<not> verifyFile fs pdfPath1 then Inl (Error ''First PDF not found'')
      else if \<not> verifyFile fs pdfPath2 then Inl (Error ''Second PDF not found'')
      else case readFile fs pdfPath1 of
        None \<Rightarrow> Inl LibraryError
      | Some pdfBytes1 \<Rightarrow>
         (case readFile fs pdfPath2 of
            None \<Rightarrow> Inl LibraryError
          | Some pdfBytes2 \<Rightarrow>
             (case loadPageCount fs pdfBytes1 of
                None \<Rightarrow> Inl LibraryError
              | Some count1 \<Rightarrow>
                 (case loadPageCount fs pdfBytes2 of
                    None \<Rightarrow> Inl LibraryError
                  | Some count2 \<Rightarrow>
                     (let differences =
                        \<lparr>pageCountMatch = (count1 = count2),
                         pageCount1 = count1,
                         pageCount2 = count2,
                         fileSize1 = length pdfBytes1,
                         fileSize2 = length pdfBytes2,
                         fileSizeMatch = (length pdfBytes1 = length pdfBytes2),
                         identical = False\<rparr>
                      in
                      if pageCountMatch differences \<and> fileSizeMatch differences
                      then Inr (differences
                             \<lparr>identical := (length pdfBytes1 = length pdfBytes2
                                             \<and> every_byte_equal pdfBytes1 pdfBytes2)\<rparr>)
                      else Inr differences)))))"


section \<open>Helpers: file type detection\<close>

text \<open>
  \<open>getFileExtension\<close> (fileManager.js) is \<open>path.extname(filePath).toLowerCase()\<close>.
  Both are library functions; \<open>extname\<close> follows Node's POSIX implementation: trailing
  slashes are ignored, the last path component is taken, and the extension runs from its
  last dot to its end, unless there is no dot, the last dot is the component's first
  character, or the component is \<open>..\<close>.
\<close>

definition extname :: "string \<Rightarrow> string" where
  "extname p =
     (let stripped = rev (dropWhile (\<lambda>c. c = CHR ''/'') (rev p));
          base = rev (takeWhile (\<lambda>c. c \<noteq> CHR ''/'') (rev stripped));
          after_dot = rev (takeWhile (\<lambda>c. c \<noteq> CHR ''.'') (rev base));
          before_dot = take (length base - length after_dot - 1) base
      in if CHR ''.'' \<notin> set base then []
         else if before_dot = [] then []
         else if base = ''..'' then []
         else CHR ''.'' # after_dot)"

definition toLowerCase :: "string \<Rightarrow> string" where
  \<comment> \<open>on code units below 256: A-Z and the Latin-1 capitals move up by 32\<close>
  "toLowerCase s =
     map (\<lambda>c. let n = (of_char c :: nat) in
               if (65 \<le> n \<and> n \<le> 90) \<or> (192 \<le> n \<and> n \<le> 222 \<and> n \<noteq> 215)
               then char_of (n + 32) else c) s"

definition getFileExtension :: "string \<Rightarrow> string" where
  "getFileExtension filePath = toLowerCase (extname filePath)"

definition detectFileType :: "string \<Rightarrow> string option \<Rightarrow> string" where
  "detectFileType filename mimeType =
     (let ext = getFileExtension filename in
      if ext = ''.pdf'' then ''pdf''
      else if ext \<in> set [''.jpg'', ''.jpeg'', ''.png'', ''.gif'', ''.bmp'', ''.webp''] then ''image''
      else if ext \<in> set [''.doc'', ''.docx''] then ''word''
      else if ext \<in> set [''.ppt'', ''.pptx''] then ''powerpoint''
      else if ext \<in> set [''.xls'', ''.xlsx''] then ''excel''
      else if ext \<in> set [''.html'', ''.htm''] then ''html''
      else if truthy mimeType then
        (case mimeType of
           None \<Rightarrow> ''unknown''
         | Some mime \<Rightarrow>
             if js_includes ''pdf'' mime then ''pdf''
             else if js_includes ''image'' mime then ''image''
             else if js_includes ''word'' mime \<or> js_includes ''document'' mime then ''word''
             else if js_includes ''presentation'' mime \<or> js_includes ''powerpoint'' mime
               then ''powerpoint''
             else if js_includes ''spreadsheet'' mime \<or> js_includes ''excel'' mime then ''excel''
             else if js_includes ''html'' mime then ''html''
             else ''unknown'')
      else ''unknown'')"

definition recognizedExtensions :: "string list" where
  "recognizedExtensions =
     [''.pdf'', ''.jpg'', ''.jpeg'', ''.png'', ''.gif'', ''.bmp'', ''.webp'', ''.doc'', ''.docx'',
      ''.ppt'', ''.pptx'', ''.xls'', ''.xlsx'', ''.html'', ''.htm'']"

definition fileTypeTags :: "string list" where
  "fileTypeTags = [''pdf'', ''image'', ''word'', ''powerpoint'', ''excel'', ''html'', ''unknown'']"


section \<open>File manager: the sweep of the staging directory\<close>

text \<open>
  The staging directory maps a file name to its \<open>mtimeMs\<close>, a number of milliseconds
  that may have a fractional part. \<open>readdir\<close>, \<open>stat\<close> and \<open>remove\<close> can fail;
  \<open>cleanupOldFiles\<close> swallows each failure.
\<close>

type_synonym temp_dir = "(string \<times> rat) list"

record temp_fs =
  readdir_ok :: bool
  stat_ok :: "string \<Rightarrow> bool"
  remove_ok :: "string \<Rightarrow> bool"

definition maxAge :: int where
  "maxAge = 60 * 60 * 1000"

fun sweep_files :: "temp_fs \<Rightarrow> int \<Rightarrow> string list \<Rightarrow> temp_dir \<Rightarrow> temp_dir" where
  "sweep_files fs now [] dir = dir"
| "sweep_files fs now (file # files) dir =
     sweep_files fs now files
       (case (if stat_ok fs file then map_of dir file else None) of
          None \<Rightarrow> dir
        | Some mtimeMs \<Rightarrow>
            if of_int now - mtimeMs > of_int maxAge
            then (if remove_ok fs file then AList.delete file dir else dir)
            else dir)"

definition cleanupOldFiles :: "temp_fs \<Rightarrow> int \<Rightarrow> temp_dir \<Rightarrow> temp_dir" where
  "cleanupOldFiles fs now dir =
     (if \<not> readdir_ok fs then dir else sweep_files fs now (map fst dir) dir)"



section \<open>Session manager\<close>

text \<open>
  \<open>userSessions\<close> is a \<open>Map\<close> from user id to a mutable session object; it is an
  association list in insertion order, and every function takes the store and returns the
  new one. \<open>Date.now()\<close> is the argument \<open>now\<close>, in milliseconds. The metadata
  object is an association list from property name to the text the user sent.
\<close>

record fileInfo =
  f_path :: string
  f_type :: string
  f_mimetype :: string
  f_size :: nat
  f_filename :: string

record session =
  userId :: string
  uploadedFiles :: "fileInfo list"
  currentStep :: string
  selectedOperation :: "string option"
  metadata :: "(string \<times> string) list"
  lastActivity :: int

type_synonym store = "(string \<times> session) list"

definition SESSION_TIMEOUT :: int where
  "SESSION_TIMEOUT = 30 * 60 * 1000"

definition newSession :: "string \<Rightarrow> int \<Rightarrow> session" where
  "newSession uid now =
     \<lparr>userId = uid, uploadedFiles = [], currentStep = ''idle'', selectedOperation = None,
      metadata = [], lastActivity = now\<rparr>"

definition getSession :: "string \<Rightarrow> int \<Rightarrow> store \<Rightarrow> session \<times> store" where
  "getSession uid now userSessions =
     (let session =
        (case map_of userSessions uid of
           None \<Rightarrow> newSession uid now
         | Some existing \<Rightarrow> existing) \<lparr>lastActivity := now\<rparr>
      in (session, AList.update uid session userSessions))"

definition clearSession :: "string \<Rightarrow> store \<Rightarrow> store" where
  "clearSession uid userSessions = AList.delete uid userSessions"

definition updateSession :: "string \<Rightarrow> (session \<Rightarrow> session) \<Rightarrow> int \<Rightarrow> store \<Rightarrow> store" where
  \<comment> \<open>\<open>updates\<close> is the field assignment that \<open>Object.assign(session, updates)\<close> performs\<close>
  "updateSession uid updates now userSessions =
     (let (session, userSessions1) = getSession uid now userSessions
      in AList.update uid ((updates session) \<lparr>lastActivity := now\<rparr>) userSessions1)"

definition addFileToSession :: "string \<Rightarrow> fileInfo \<Rightarrow> int \<Rightarrow> store \<Rightarrow> store" where
  "addFileToSession uid fileInfo now userSessions =
     (let (session, userSessions1) = getSession uid now userSessions
      in AList.update uid
           (session \<lparr>uploadedFiles := uploadedFiles session @ [fileInfo], lastActivity := now\<rparr>)
           userSessions1)"

definition getSessionFiles :: "string \<Rightarrow> int \<Rightarrow> store \<Rightarrow> fileInfo list \<times> store" where
  "getSessionFiles uid now userSessions =
     (let (session, userSessions1) = getSession uid now userSessions
      in (uploadedFiles session, userSessions1))"

definition clearSessionFiles :: "string \<Rightarrow> int \<Rightarrow> store \<Rightarrow> store" where
  "clearSessionFiles uid now userSessions =
     (let (session, userSessions1) = getSession uid now userSessions
      in AList.update uid (session \<lparr>uploadedFiles := [], lastActivity := now\<rparr>) userSessions1)"

fun expire_entries :: "int \<Rightarrow> (string \<times> session) list \<Rightarrow> store \<Rightarrow> store" where
  \<comment> \<open>the loop over \<open>userSessions.entries()\<close>\<close>
  "expire_entries now [] userSessions = userSessions"
| "expire_entries now ((uid, session) # entries) userSessions =
     expire_entries now entries
       (if now - lastActivity session > SESSION_TIMEOUT
        then AList.delete uid userSessions else userSessions)"

definition cleanupExpiredSessions :: "int \<Rightarrow> store \<Rightarrow> store" where
  "cleanupExpiredSessions now userSessions = expire_entries now userSessions userSessions"


section \<open>Message handler\<close>

text \<open>
  The handler's state is the session store, the replies delivered so far, and the number
  of calls of \<open>message.reply\<close> made so far. Reply texts are kept without their
  pictographs; replies built from computed values have a constructor of their own.
  \<open>message.reply\<close> is awaited and can reject: \<open>reply_error\<close> tells, for the n-th
  call, the message of the rejection, if any. An \<open>async\<close> function of the handler
  returns the error it rejects with, if any, together with the state it leaves. The
  conversion services are reached through \<open>engine\<close>, which answers a call with the
  output path or with the error it throws; \<open>comparePDFs\<close> is the function above, run on
  the file system \<open>pdf_files\<close>.
\<close>

datatype reply =
    Text string
  | FileReceived nat  \<comment> \<open>File received! with the formatted size\<close>
  | MergeReceived nat  \<comment> \<open>Received n file(s). Send more PDFs or type *done* to merge.\<close>
  | ComparisonResults comparison
  | ErrorReply js_error  \<comment> \<open>Error: message. Type *menu* to start over.\<close>
  | UploadErrorReply js_error  \<comment> \<open>Error uploading file: message\<close>
  | MediaReply string  \<comment> \<open>the file at this path, sent as media\<close>

record bot_state =
  sessions :: store
  outbox :: "reply list"
  attempts :: nat

record media =
  mimetype :: string
  m_data :: bytes
  m_filename :: "string option"

record message =
  m_from :: string
  m_body :: string
  hasMedia :: bool
  downloadMedia :: "js_error + media option"

datatype image_result = OnePath string | ManyPaths "string list"

datatype engine_call =
    MergePDFs "string list"
  | SplitPDF string string
  | RemovePages string string
  | ExtractPages string string
  | CompressPDF string string
  | RepairPDF string
  | OcrPDF string
  | ImageToPDF string
  | WordToPDF string
  | PowerpointToPDF string
  | ExcelToPDF string
  | HtmlToPDF string
  | PdfToWord string
  | PdfToPowerpoint string
  | PdfToExcel string
  | PdfToPDFA string
  | RotatePDF string "int option" string
  | AddPageNumbers string string
  | AddWatermark string string "string option"
  | BasicEditPDF string
  | UnlockPDF string string
  | ProtectPDF string string
  | SignPDF string string string

record world =
  engine :: "engine_call \<Rightarrow> js_error + string"
  pdfToImage :: "string \<Rightarrow> int option \<Rightarrow> js_error + image_result"
  pdf_files :: pdf_fs
  reply_error :: "nat \<Rightarrow> string option"
    \<comment> \<open>the message with which the n-th call of \<open>message.reply\<close> rejects, if it does\<close>
  fromFilePath_error :: "string \<Rightarrow> string option"
    \<comment> \<open>the message of the error \<open>MessageMedia.fromFilePath\<close> throws for this path, if any\<close>
  tempStem :: string
    \<comment> \<open>the staging directory and \<open>temp_<timestamp>_<random>\<close> of the next temporary path\<close>
  writeFile_ok :: "string \<Rightarrow> bool"

type_synonym result = "js_error option \<times> bot_state"

definition send_reply :: "world \<Rightarrow> reply \<Rightarrow> bot_state \<Rightarrow> result" where
  \<comment> \<open>\<open>await message.reply(...)\<close>: the reply is delivered, or the call rejects\<close>
  "send_reply w r st =
     (case reply_error w (attempts st) of
        None \<Rightarrow> (None, st \<lparr>outbox := outbox st @ [r], attempts := Suc (attempts st)\<rparr>)
      | Some msg \<Rightarrow> (Some (ReplyError msg), st \<lparr>attempts := Suc (attempts st)\<rparr>))"

definition and_then :: "result \<Rightarrow> (bot_state \<Rightarrow> result) \<Rightarrow> result" where
  \<comment> \<open>the statements after an awaited call run only if the call did not reject\<close>
  "and_then r rest = (case r of (Some e, st) \<Rightarrow> (Some e, st) | (None, st) \<Rightarrow> rest st)"

definition error_message :: "js_error \<Rightarrow> string" where
  \<comment> \<open>\<open>error.message\<close>; the text of a library's own error is not modelled\<close>
  "error_message e = (case e of Error msg \<Rightarrow> msg | ReplyError msg \<Rightarrow> msg | LibraryError \<Rightarrow> [])"

definition with_sessions :: "(store \<Rightarrow> store) \<Rightarrow> bot_state \<Rightarrow> bot_state" where
  "with_sessions f st = st \<lparr>sessions := f (sessions st)\<rparr>"

definition idle_reset :: "session \<Rightarrow> session" where
  \<comment> \<open>the update \<open>{ currentStep: 'idle', selectedOperation: null }\<close>\<close>
  "idle_reset s = s \<lparr>currentStep := ''idle'', selectedOperation := None\<rparr>"

definition getTempFilePath :: "world \<Rightarrow> string \<Rightarrow> string" where
  "getTempFilePath w extension = tempStem w @ extension"

definition endsWith :: "string \<Rightarrow> string \<Rightarrow> bool" where
  \<comment> \<open>\<open>s.endsWith(p)\<close>, arguments in the order \<open>endsWith p s\<close>\<close>
  "endsWith p s = startsWith (rev p) (rev s)"

definition validateFileType :: "fileInfo list \<Rightarrow> string \<Rightarrow> string \<Rightarrow> js_error option" where
  \<comment> \<open>\<open>Some e\<close> when the function throws \<open>e\<close>\<close>
  "validateFileType files requiredType operationName =
     (if length files = 0 then Some (Error (''Please send a '' @ requiredType @ '' file.''))
      else if f_type (files ! 0) \<noteq> requiredType
        then Some (Error (''Invalid file type for '' @ operationName @ ''. Expected ''
                          @ requiredType @ '', received ''
                          @ (if f_type (files ! 0) = [] then ''unknown'' else f_type (files ! 0))
                          @ ''.''))
      else None)"

text \<open>
  What the \<open>switch\<close> of \<open>processOperation\<close> does for one operation: it throws, or asks
  for a further input and returns, or replies that the operation is unsupported and
  returns, or asks for the second file of a comparison and returns, or reports a
  comparison and returns, or leaves the \<open>switch\<close> with \<open>outputPath\<close> or
  \<open>outputPaths\<close> set.
\<close>

datatype outcome =
    Throw js_error
  | AskFor string string  \<comment> \<open>the next \<open>currentStep\<close> and the prompt\<close>
  | Unsupported string
  | NeedSecondFile
  | Compared comparison
  | Output string
  | Outputs "string list"

definition run_engine :: "world \<Rightarrow> engine_call \<Rightarrow> outcome" where
  "run_engine w call = (case engine w call of Inl e \<Rightarrow> Throw e | Inr outputPath \<Rightarrow> Output outputPath)"

definition validated :: "fileInfo list \<Rightarrow> string \<Rightarrow> outcome \<Rightarrow> outcome" where
  \<comment> \<open>\<open>validateFileType(files, 'pdf', operationName)\<close> followed by the rest of the case\<close>
  "validated files operationName rest =
     (case validateFileType files ''pdf'' operationName of Some e \<Rightarrow> Throw e | None \<Rightarrow> rest)"

definition dispatch ::
  "world \<Rightarrow> string option \<Rightarrow> fileInfo list \<Rightarrow> (string \<times> string) list \<Rightarrow> outcome" where
  \<open>dispatch w operation files md =
     (if operation = Some ''merge_pdf'' then
        (if length files < 2 then Throw (Error ''Please send at least 2 PDF files to merge.'')
         else (let pdfPaths = filter (endsWith ''.pdf'') (map f_path files) in
               if length pdfPaths < 2 then Throw (Error ''Please send PDF files only.'')
               else run_engine w (MergePDFs pdfPaths)))
      else if operation = Some ''split_pdf'' then
        validated files ''Split PDF''
          (if \<not> truthy (map_of md ''pageRange'')
           then AskFor ''waiting_for_page_range''
                  ''Please specify page range (e.g., "1-5", "1,3,5", "1-" for all from page 1):''
           else run_engine w (SplitPDF (f_path (files ! 0)) (str_or (map_of md ''pageRange'') [])))
      else if operation = Some ''remove_pages'' then
        validated files ''Remove Pages''
          (if \<not> truthy (map_of md ''pageRange'')
           then AskFor ''waiting_for_page_range''
                  ''Please specify pages to remove (e.g., "1-3", "5,7,9"):''
           else run_engine w (RemovePages (f_path (files ! 0)) (str_or (map_of md ''pageRange'') [])))
      else if operation = Some ''extract_pages'' then
        validated files ''Extract Pages''
          (if \<not> truthy (map_of md ''pageRange'')
           then AskFor ''waiting_for_page_range''
                  ''Please specify pages to extract (e.g., "1-3", "5,7,9"):''
           else run_engine w (ExtractPages (f_path (files ! 0)) (str_or (map_of md ''pageRange'') [])))
      else if operation = Some ''compress_pdf'' then
        validated files ''Compress PDF''
          (run_engine w (CompressPDF (f_path (files ! 0)) (str_or (map_of md ''quality'') ''ebook'')))
      else if operation = Some ''repair_pdf'' then
        validated files ''Repair PDF'' (run_engine w (RepairPDF (f_path (files ! 0))))
      else if operation = Some ''ocr_pdf'' then
        validated files ''OCR PDF'' (run_engine w (OcrPDF (f_path (files ! 0))))
      else if operation = Some ''image_to_pdf'' then
        (if length files = 0 then Throw (Error ''Please send an image file.'')
         else if f_type (files ! 0) \<noteq> ''image''
           then Throw (Error (''Please send an image file (JPG, PNG, etc.). Received: ''
                              @ f_type (files ! 0)))
         else run_engine w (ImageToPDF (f_path (files ! 0))))
      else if operation = Some ''word_to_pdf'' then
        (if length files = 0 then Throw (Error ''Please send a Word document.'')
         else run_engine w (WordToPDF (f_path (files ! 0))))
      else if operation = Some ''powerpoint_to_pdf'' then
        (if length files = 0 then Throw (Error ''Please send a PowerPoint file.'')
         else run_engine w (PowerpointToPDF (f_path (files ! 0))))
      else if operation = Some ''excel_to_pdf'' then
        (if length files = 0 then Throw (Error ''Please send an Excel file.'')
         else run_engine w (ExcelToPDF (f_path (files ! 0))))
      else if operation = Some ''html_to_pdf'' then
        (if length files = 0 then Throw (Error ''Please send an HTML file.'')
         else run_engine w (HtmlToPDF (f_path (files ! 0))))
      else if operation = Some ''pdf_to_image'' then
        (if length files = 0 then Throw (Error ''Please send a PDF file.'')
         else if f_type (files ! 0) \<noteq> ''pdf''
           then Throw (Error (''Please send a PDF file. Received: '' @ f_type (files ! 0)))
         else if \<not> truthy (map_of md ''pageNumber'') \<and> map_of md ''pageNumber'' \<noteq> Some ''0''
           then AskFor ''waiting_for_page_number''
                  ''Please specify page number (1, 2, 3, etc.) or type "all" for all pages:''
         else (let pageNum =
                 (if map_of md ''pageNumber'' = Some ''all'' \<or> map_of md ''pageNumber'' = Some ''0''
                  then Some 0 else parseInt (str_or (map_of md ''pageNumber'') []))
               in case pdfToImage w (f_path (files ! 0)) pageNum of
                    Inl e \<Rightarrow> Throw e
                  | Inr (ManyPaths images) \<Rightarrow> Outputs images
                  | Inr (OnePath img) \<Rightarrow> Outputs [img]))
      else if operation = Some ''pdf_to_word'' then
        validated files ''PDF to Word'' (run_engine w (PdfToWord (f_path (files ! 0))))
      else if operation = Some ''pdf_to_powerpoint'' then
        validated files ''PDF to PowerPoint'' (run_engine w (PdfToPowerpoint (f_path (files ! 0))))
      else if operation = Some ''pdf_to_excel'' then
        validated files ''PDF to Excel'' (run_engine w (PdfToExcel (f_path (files ! 0))))
      else if operation = Some ''pdf_to_pdfa'' then
        validated files ''PDF to PDF/A'' (run_engine w (PdfToPDFA (f_path (files ! 0))))
      else if operation = Some ''rotate_pdf'' then
        validated files ''Rotate PDF''
          (if \<not> truthy (map_of md ''angle'')
           then AskFor ''waiting_for_angle'' ''Please specify rotation angle (90, 180, or 270):''
           else if \<not> truthy (map_of md ''pageRange'')
           then AskFor ''waiting_for_page_range''
                  ''Please specify pages to rotate (e.g., "1-5" or "all"):''
           else run_engine w
                  (RotatePDF (f_path (files ! 0)) (parseInt (str_or (map_of md ''angle'') []))
                     (str_or (map_of md ''pageRange'') [])))
      else if operation = Some ''add_page_numbers'' then
        validated files ''Add Page Numbers''
          (if \<not> truthy (map_of md ''position'')
           then AskFor ''waiting_for_position''
                  ''Please specify position (bottom-left, bottom-center, bottom-right, top-left, top-center, top-right):''
           else run_engine w
                  (AddPageNumbers (f_path (files ! 0)) (str_or (map_of md ''position'') [])))
      else if operation = Some ''add_watermark'' then
        validated files ''Add Watermark''
          (if \<not> truthy (map_of md ''watermarkText'') \<and> length files < 2
           then AskFor ''waiting_for_watermark''
                  ''Please send watermark image or type watermark text:''
           else (let watermarkImage = (if length files > 1 then Some (f_path (files ! 1)) else None)
                 in run_engine w
                      (AddWatermark (f_path (files ! 0))
                         (str_or (map_of md ''watermarkText'') ''WATERMARK'') watermarkImage)))
      else if operation = Some ''crop_pdf'' then
        validated files ''Crop PDF''
          (Unsupported ''Crop PDF requires specific dimensions. This feature needs manual input.'')
      else if operation = Some ''basic_edit_pdf'' then
        validated files ''Basic Edit PDF'' (run_engine w (BasicEditPDF (f_path (files ! 0))))
      else if operation = Some ''unlock_pdf'' then
        validated files ''Unlock PDF''
          (run_engine w (UnlockPDF (f_path (files ! 0)) (str_or (map_of md ''password'') [])))
      else if operation = Some ''protect_pdf'' then
        validated files ''Protect PDF''
          (if \<not> truthy (map_of md ''password'')
           then AskFor ''waiting_for_password'' ''Please provide a password:''
           else run_engine w
                  (ProtectPDF (f_path (files ! 0)) (str_or (map_of md ''password'') [])))
      else if operation = Some ''sign_pdf'' then
        validated files ''Sign PDF''
          (if length files < 2
           then AskFor ''waiting_for_signature'' ''Please send the signature image:''
           else run_engine w
                  (SignPDF (f_path (files ! 0)) (f_path (files ! 1))
                     (str_or (map_of md ''position'') ''bottom-right'')))
      else if operation = Some ''redact_pdf'' then
        validated files ''Redact PDF''
          (Unsupported ''Redact PDF requires specific coordinates. This feature needs manual input.'')
      else if operation = Some ''compare_pdf'' then
        (if length files < 2 then NeedSecondFile
         else if f_type (files ! 0) \<noteq> ''pdf'' \<or> f_type (files ! 1) \<noteq> ''pdf''
           then Throw (Error ''Both files must be PDFs for comparison.'')
         else (case comparePDFs (pdf_files w) (f_path (files ! 0)) (f_path (files ! 1)) of
                 Inl e \<Rightarrow> Throw e
               | Inr comparison \<Rightarrow> Compared comparison))
      else Throw (Error ''Unknown operation''))\<close>


definition sendFile :: "world \<Rightarrow> string \<Rightarrow> bot_state \<Rightarrow> result" where
  "sendFile w filePath st =
     (case fromFilePath_error w filePath of
        Some msg \<Rightarrow> (Some (Error (''Failed to send file: '' @ msg)), st)
      | None \<Rightarrow>
          (case send_reply w (MediaReply filePath) st of
             (Some e, st1) \<Rightarrow> (Some (Error (''Failed to send file: '' @ error_message e)), st1)
           | (None, st1) \<Rightarrow> (None, st1)))"

fun send_each :: "world \<Rightarrow> string list \<Rightarrow> bot_state \<Rightarrow> result" where
  \<comment> \<open>the loop over \<open>outputPaths\<close>\<close>
  "send_each w [] st = (None, st)"
| "send_each w (outPath # rest) st =
     (if verifyFile (pdf_files w) outPath
      then and_then (sendFile w outPath st) (send_each w rest)
      else send_each w rest st)"

definition deliver :: "world \<Rightarrow> string option \<Rightarrow> string list \<Rightarrow> bot_state \<Rightarrow> result" where
  \<comment> \<open>the statements after the \<open>switch\<close> up to the last \<open>throw\<close>\<close>
  "deliver w outputPath outputPaths st =
     (if length outputPaths > 0 then send_each w outputPaths st
      else if truthy outputPath \<and> verifyFile (pdf_files w) (str_or outputPath [])
        then sendFile w (str_or outputPath []) st
      else (Some (Error ''Failed to create output file''), st))"

definition finish ::
  "world \<Rightarrow> string \<Rightarrow> int \<Rightarrow> string option \<Rightarrow> string list \<Rightarrow> bot_state \<Rightarrow> result" where
  "finish w uid now outputPath outputPaths st =
     and_then (deliver w outputPath outputPaths st)
       (\<lambda>st1. and_then (send_reply w (Text ''Done! Type *menu* to see more options.'') st1)
          (\<lambda>st2. (None,
             with_sessions
               (updateSession uid
                  (\<lambda>s. s \<lparr>currentStep := ''idle'', selectedOperation := None, metadata := []\<rparr>)
                  now)
               (with_sessions (clearSessionFiles uid now) st2))))"

definition processOperation_try :: "world \<Rightarrow> string \<Rightarrow> int \<Rightarrow> bot_state \<Rightarrow> result" where
  \<comment> \<open>the body of \<open>processOperation\<close> up to its \<open>catch\<close>: the error thrown inside
      \<open>try\<close>, if any, and the state reached\<close>
  "processOperation_try w uid now st =
     (let (session, ss1) = getSession uid now (sessions st);
          operation = selectedOperation session;
          (files, ss2) = getSessionFiles uid now ss1;
          md = metadata session
      in and_then
           (send_reply w (Text ''Processing... This may take a moment.'') (st \<lparr>sessions := ss2\<rparr>))
           (\<lambda>st1.
              case dispatch w operation files md of
                Throw e \<Rightarrow> (Some e, st1)
              | AskFor step prompt \<Rightarrow>
                  send_reply w (Text prompt)
                    (with_sessions (updateSession uid (\<lambda>s. s \<lparr>currentStep := step\<rparr>) now) st1)
              | Unsupported text \<Rightarrow>
                  and_then (send_reply w (Text text) st1)
                    (\<lambda>st2. (None, with_sessions (updateSession uid idle_reset now) st2))
              | NeedSecondFile \<Rightarrow>
                  send_reply w (Text ''Please send the second PDF file to compare.'') st1
              | Compared comparison \<Rightarrow>
                  and_then (send_reply w (ComparisonResults comparison) st1)
                    (\<lambda>st2. (None,
                       with_sessions (clearSessionFiles uid now)
                         (with_sessions (updateSession uid idle_reset now) st2)))
              | Output outputPath \<Rightarrow> finish w uid now (Some outputPath) [] st1
              | Outputs outputPaths \<Rightarrow> finish w uid now None outputPaths st1))"

definition processOperation :: "world \<Rightarrow> string \<Rightarrow> int \<Rightarrow> bot_state \<Rightarrow> result" where
  \<comment> \<open>the \<open>catch\<close> replies first and resets the session afterwards; if its reply
      rejects, \<open>processOperation\<close> rejects and the reset is not reached\<close>
  "processOperation w uid now st =
     (case processOperation_try w uid now st of
        (Some e, st1) \<Rightarrow>
          and_then (send_reply w (ErrorReply e) st1)
            (\<lambda>st2. (None, with_sessions (updateSession uid idle_reset now) st2))
      | (None, st1) \<Rightarrow> (None, st1))"

definition checkOperationRequirements :: "world \<Rightarrow> string \<Rightarrow> int \<Rightarrow> bot_state \<Rightarrow> result" where
  "checkOperationRequirements w uid now st =
     (let (session, ss1) = getSession uid now (sessions st);
          operation = selectedOperation session;
          (files, ss2) = getSessionFiles uid now ss1;
          st1 = st \<lparr>sessions := ss2\<rparr>
      in if operation = Some ''merge_pdf'' then
           (if length files = 0
            then send_reply w (Text ''Please send PDF files to merge. Type *done* when finished.'') st1
            else send_reply w (MergeReceived (length files)) st1)
         else if operation = Some ''compare_pdf'' then
           (if length files = 0 then send_reply w (Text ''Please send the first PDF file.'') st1
            else if length files = 1
              then send_reply w (Text ''Please send the second PDF file to compare.'') st1
            else (None, st1))
         else if length files > 0 then processOperation w uid now st1
         else (None, st1))"

definition handleFileUpload_try :: "world \<Rightarrow> message \<Rightarrow> string \<Rightarrow> int \<Rightarrow> bot_state \<Rightarrow> result" where
  \<comment> \<open>the \<open>try\<close> block of \<open>handleFileUpload\<close>\<close>
  "handleFileUpload_try w msg uid now st =
     and_then (send_reply w (Text ''Downloading file...'') st)
       (\<lambda>st1.
          case downloadMedia msg of
            Inl e \<Rightarrow> (Some e, st1)
          | Inr None \<Rightarrow> send_reply w (Text ''Failed to download file. Please try again.'') st1
          | Inr (Some md) \<Rightarrow>
              (let fileExtension =
                     (if js_includes ''pdf'' (mimetype md) then ''.pdf''
                      else if js_includes ''image'' (mimetype md) then ''.jpg''
                      else if js_includes ''word'' (mimetype md) then ''.docx''
                      else if js_includes ''presentation'' (mimetype md) then ''.pptx''
                      else if js_includes ''spreadsheet'' (mimetype md) then ''.xlsx''
                      else if js_includes ''html'' (mimetype md) then ''.html''
                      else ''.bin'');
                   filePath = getTempFilePath w fileExtension
               in
               if \<not> writeFile_ok w filePath then (Some LibraryError, st1)
               else if \<not> verifyFile (pdf_files w) filePath
                 then send_reply w (Text ''Failed to save file. Please try again.'') st1
               else
                 (let fileType = detectFileType filePath (Some (mimetype md));
                      fileSize = length (m_data md);
                      ss1 = addFileToSession uid
                              \<lparr>f_path = filePath, f_type = fileType, f_mimetype = mimetype md,
                               f_size = fileSize,
                               f_filename = str_or (m_filename md) (''file'' @ fileExtension)\<rparr>
                              now (sessions st1);
                      (session, ss2) = getSession uid now ss1
                  in and_then (send_reply w (FileReceived fileSize) (st1 \<lparr>sessions := ss2\<rparr>))
                       (\<lambda>st2. if truthy (selectedOperation session)
                              then checkOperationRequirements w uid now st2
                              else (None, st2)))))"

definition handleFileUpload :: "world \<Rightarrow> message \<Rightarrow> string \<Rightarrow> int \<Rightarrow> bot_state \<Rightarrow> result" where
  "handleFileUpload w msg uid now st =
     (case handleFileUpload_try w msg uid now st of
        (Some e, st1) \<Rightarrow> send_reply w (UploadErrorReply e) st1
      | (None, st1) \<Rightarrow> (None, st1))"

definition set_metadata :: "string \<Rightarrow> string \<Rightarrow> string \<Rightarrow> store \<Rightarrow> store" where
  \<comment> \<open>\<open>session.metadata[key] = value\<close> on the session object held by the store\<close>
  "set_metadata uid key val userSessions =
     (case map_of userSessions uid of
        None \<Rightarrow> userSessions
      | Some s \<Rightarrow>
          AList.update uid (s \<lparr>metadata := AList.update key val (metadata s)\<rparr>) userSessions)"

definition handleStepOperation :: "world \<Rightarrow> message \<Rightarrow> string \<Rightarrow> int \<Rightarrow> bot_state \<Rightarrow> result" where
  "handleStepOperation w msg uid now st =
     (let (session, ss1) = getSession uid now (sessions st);
          body = js_trim (m_body msg);
          (files, ss2) = getSessionFiles uid now ss1;
          st1 = st \<lparr>sessions := ss2\<rparr>;
          processing = updateSession uid (\<lambda>s. s \<lparr>currentStep := ''processing''\<rparr>) now
      in if selectedOperation session = Some ''merge_pdf'' \<and> body = ''done'' then
           (if length files < 2
            then send_reply w (Text ''Please send at least 2 PDF files to merge.'') st1
            else processOperation w uid now st1)
         else if currentStep session = ''waiting_for_page_range'' then
           processOperation w uid now
             (with_sessions processing (with_sessions (set_metadata uid ''pageRange'' body) st1))
         else if currentStep session = ''waiting_for_page_number'' then
           processOperation w uid now
             (with_sessions processing
                (with_sessions (set_metadata uid ''pageNumber'' (toLowerCase body)) st1))
         else if startsWith ''waiting_for_'' (currentStep session) then
           (let inputType = drop (length ''waiting_for_'') (currentStep session) in
            processOperation w uid now
              (with_sessions processing (with_sessions (set_metadata uid inputType body) st1)))
         else if length files > 0 \<and> truthy (selectedOperation session) then
           processOperation w uid now st1
         else (None, st1))"


section \<open>Example inputs\<close>

text \<open>
  A world in which every conversion fails with \<open>Compression failed\<close>, every file
  verifies and can be written, every reply is delivered, and the two stored PDFs have one
  page each and differ in their second byte; the same world with a channel that rejects
  the second reply; a user who has uploaded one PDF; and two inbound messages.
\<close>

definition example_world :: world where
  "example_world =
     \<lparr>engine = (\<lambda>c. Inl (Error ''Compression failed'')),
      pdfToImage = (\<lambda>p n. Inl LibraryError),
      pdf_files =
        \<lparr>verifyFile = (\<lambda>p. True),
         readFile = (\<lambda>p. if p = ''/tmp/temp_1_a.pdf'' then Some [37, 80] else Some [37, 81]),
         loadPageCount = (\<lambda>b. Some 1)\<rparr>,
      reply_error = (\<lambda>n. None),
      fromFilePath_error = (\<lambda>p. None),
      tempStem = ''/tmp/temp_2_b'',
      writeFile_ok = (\<lambda>p. True)\<rparr>"


definition example_pdf1 :: fileInfo where
  "example_pdf1 =
     \<lparr>f_path = ''/tmp/temp_1_a.pdf'', f_type = ''pdf'', f_mimetype = ''application/pdf'',
      f_size = 2, f_filename = ''a.pdf''\<rparr>"

definition example_pdf2 :: fileInfo where
  "example_pdf2 =
     \<lparr>f_path = ''/tmp/temp_2_b.pdf'', f_type = ''pdf'', f_mimetype = ''application/pdf'',
      f_size = 2, f_filename = ''b.pdf''\<rparr>"


definition compare_session :: session where
  "compare_session =
     \<lparr>userId = ''u1'', uploadedFiles = [example_pdf1], currentStep = ''waiting_for_file'',
      selectedOperation = Some ''compare_pdf'', metadata = [], lastActivity = 0\<rparr>"

definition second_pdf_message :: message where
  "second_pdf_message =
     \<lparr>m_from = ''u1'', m_body = [], hasMedia = True,
      downloadMedia =
        Inr (Some \<lparr>mimetype = ''application/pdf'', m_data = [37, 81], m_filename = Some ''b.pdf''\<rparr>)\<rparr>"

definition text_message :: message where
  "text_message = \<lparr>m_from = ''u1'', m_body = ''ok'', hasMedia = False, downloadMedia = Inr None\<rparr>"

definition example_comparison :: comparison where
  "example_comparison =
     \<lparr>pageCountMatch = True, pageCount1 = 1, pageCount2 = 1, fileSize1 = 2, fileSize2 = 2,
      fileSizeMatch = True, identical = False\<rparr>"


section \<open>Evaluation rules\<close>

lemmas js_prims =
  isWhiteSpace_def js_trim_def digitValue_def isRadixDigit_def mathInt_def parseInt_def
  num_or_def str_or_def truthy_def

lemmas parse_eval = js_prims parse_part_def parsePageRange_def range_loop.simps


section \<open>The loops as sets and lists\<close>

lemma range_loop_set:
  "set (range_loop i endNum totalPages pages) =
     set pages \<union> {j. i \<le> j \<and> j \<le> endNum \<and> j \<le> totalPages \<and> 1 \<le> j}"
proof (induction i endNum totalPages pages rule: range_loop.induct)
  case (1 i endNum totalPages pages)
  show ?case
  proof (cases "i \<le> endNum \<and> i \<le> totalPages")
    case True
    have "set (range_loop i endNum totalPages pages) =
          set (range_loop (i + 1) endNum totalPages
                 (if i \<ge> 1 \<and> i \<notin> set pages then pages @ [i] else pages))"
      using True by (subst range_loop.simps) simp
    also have "\<dots> = set (if i \<ge> 1 \<and> i \<notin> set pages then pages @ [i] else pages)
                  \<union> {j. i + 1 \<le> j \<and> j \<le> endNum \<and> j \<le> totalPages \<and> 1 \<le> j}"
      using "1.IH" [OF True] .
    also have "\<dots> = set pages \<union> {j. i \<le> j \<and> j \<le> endNum \<and> j \<le> totalPages \<and> 1 \<le> j}"
    proof (rule set_eqI)
      fix x
      show "x \<in> set (if i \<ge> 1 \<and> i \<notin> set pages then pages @ [i] else pages)
                  \<union> {j. i + 1 \<le> j \<and> j \<le> endNum \<and> j \<le> totalPages \<and> 1 \<le> j}
            \<longleftrightarrow> x \<in> set pages \<union> {j. i \<le> j \<and> j \<le> endNum \<and> j \<le> totalPages \<and> 1 \<le> j}"
        using True by (cases "x = i") auto
    qed
    finally show ?thesis .
  next
    case False
    then show ?thesis by (subst range_loop.simps) auto
  qed
qed

lemma rotate_loop_set:
  "set (rotate_loop i bound totalPages acc) =
     set acc \<union> {j. i \<le> j \<and> j < bound \<and> 0 \<le> j \<and> j < totalPages}"
proof (induction i bound totalPages acc rule: rotate_loop.induct)
  case (1 i bound totalPages acc)
  show ?case
  proof (cases "i < bound")
    case True
    have "set (rotate_loop i bound totalPages acc) =
          set (rotate_loop (i + 1) bound totalPages
                 (if i \<ge> 0 \<and> i < totalPages then acc @ [i] else acc))"
      using True by (subst rotate_loop.simps) simp
    also have "\<dots> = set (if i \<ge> 0 \<and> i < totalPages then acc @ [i] else acc)
                  \<union> {j. i + 1 \<le> j \<and> j < bound \<and> 0 \<le> j \<and> j < totalPages}"
      using "1.IH" [OF True] .
    also have "\<dots> = set acc \<union> {j. i \<le> j \<and> j < bound \<and> 0 \<le> j \<and> j < totalPages}"
      using True by auto
    finally show ?thesis .
  next
    case False
    then show ?thesis by (subst rotate_loop.simps) auto
  qed
qed

lemma keep_loop_eq:
  "keep_loop i totalPages pagesToRemove acc =
     acc @ map (\<lambda>j. j - 1) (filter (\<lambda>j. j \<notin> set pagesToRemove) [i..totalPages])"
proof (induction i totalPages pagesToRemove acc rule: keep_loop.induct)
  case (1 i totalPages pagesToRemove acc)
  show ?case
  proof (cases "i \<le> totalPages")
    case True
    have up: "[i..totalPages] = i # [i + 1..totalPages]"
      using True by (simp add: upto_rec1)
    show ?thesis
      using True "1.IH" [OF True]
      by (subst keep_loop.simps) (simp add: up)
  next
    case False
    then show ?thesis by (subst keep_loop.simps) simp
  qed
qed

lemma js_split_nonempty: "js_split sep s \<noteq> []"
  by (induction s) (auto split: list.splits)

lemma js_split_two: "sep \<in> set s \<Longrightarrow> \<exists>a b rest. js_split sep s = a # b # rest"
proof (induction s)
  case Nil
  then show ?case by simp
next
  case (Cons c cs)
  show ?case
  proof (cases "c = sep")
    case True
    then show ?thesis
      using js_split_nonempty [of sep cs] by (cases "js_split sep cs") auto
  next
    case False
    with Cons obtain a b rest where "js_split sep cs = a # b # rest" by auto
    with False show ?thesis by simp
  qed
qed

lemma parseInt_empty: "parseInt [] = None"
  by (simp add: parseInt_def)

lemma js_trim_empty: "js_trim [] = []"
  by (simp add: js_trim_def)

lemma part_agree:
  assumes acc: "(\<lambda>i. i + 1) ` set R = set P"
    and num: "if CHR ''-'' \<in> set (js_trim part)
              then parseInt (js_trim (hd (js_split CHR ''-'' (js_trim part)))) \<noteq> None else True"
  shows "(\<lambda>i. i + 1) ` set (rotate_part n R part) = set (parse_part n P part)"
proof (cases "CHR ''-'' \<in> set (js_trim part)")
  case True
  then obtain a b rest where sp: "js_split CHR ''-'' (js_trim part) = a # b # rest"
    using js_split_two by blast
  from num True sp obtain v where v: "parseInt (js_trim a) = Some v" by auto
  have e: "(if js_trim b \<noteq> [] then num_or (parseInt (js_trim b)) n else n)
           = num_or (parseInt (js_trim b)) n"
    by (simp add: parseInt_empty num_or_def)
  have img: "(\<lambda>i. i + 1) ` {j. v - 1 \<le> j \<and> j < e' \<and> 0 \<le> j \<and> j < n}
             = {j. num_or (Some v) 1 \<le> j \<and> j \<le> e' \<and> j \<le> n \<and> 1 \<le> j}" for e'
  proof (rule set_eqI)
    fix k
    show "k \<in> (\<lambda>i. i + 1) ` {j. v - 1 \<le> j \<and> j < e' \<and> 0 \<le> j \<and> j < n}
          \<longleftrightarrow> k \<in> {j. num_or (Some v) 1 \<le> j \<and> j \<le> e' \<and> j \<le> n \<and> 1 \<le> j}"
    proof
      assume "k \<in> (\<lambda>i. i + 1) ` {j. v - 1 \<le> j \<and> j < e' \<and> 0 \<le> j \<and> j < n}"
      then show "k \<in> {j. num_or (Some v) 1 \<le> j \<and> j \<le> e' \<and> j \<le> n \<and> 1 \<le> j}"
        by (auto simp: num_or_def)
    next
      assume k: "k \<in> {j. num_or (Some v) 1 \<le> j \<and> j \<le> e' \<and> j \<le> n \<and> 1 \<le> j}"
      then have "k - 1 \<in> {j. v - 1 \<le> j \<and> j < e' \<and> 0 \<le> j \<and> j < n}"
        by (auto simp: num_or_def split: if_splits)
      then have "(k - 1) + 1 \<in> (\<lambda>i. i + 1) ` {j. v - 1 \<le> j \<and> j < e' \<and> 0 \<le> j \<and> j < n}"
        by (rule imageI)
      then show "k \<in> (\<lambda>i. i + 1) ` {j. v - 1 \<le> j \<and> j < e' \<and> 0 \<le> j \<and> j < n}"
        by simp
    qed
  qed
  have rot: "rotate_part n R part
             = rotate_loop (v - 1) (num_or (parseInt (js_trim b)) n) n R"
    using True sp v by (simp add: rotate_part_def)
  have par: "parse_part n P part
             = range_loop (num_or (Some v) 1) (num_or (parseInt (js_trim b)) n) n P"
    using True sp v e by (simp add: parse_part_def)
  show ?thesis
    unfolding rot par range_loop_set rotate_loop_set image_Un acc img ..
next
  case False
  show ?thesis
  proof (cases "parseInt (js_trim part)")
    case None
    with False acc show ?thesis by (simp add: rotate_part_def parse_part_def)
  next
    case (Some p)
    have "p - 1 \<notin> set R \<longleftrightarrow> p \<notin> set P"
      using acc by force
    with False Some acc show ?thesis
      by (auto simp: rotate_part_def parse_part_def Let_def)
  qed
qed

lemma fold_agree:
  assumes "(\<lambda>i. i + 1) ` set R = set P"
    and "list_all (\<lambda>part. if CHR ''-'' \<in> set (js_trim part)
               then parseInt (js_trim (hd (js_split CHR ''-'' (js_trim part)))) \<noteq> None
               else True) parts"
  shows "(\<lambda>i. i + 1) ` set (foldl (rotate_part n) R parts) = set (foldl (parse_part n) P parts)"
  using assms
proof (induction parts arbitrary: R P)
  case Nil
  then show ?case by simp
next
  case (Cons part parts)
  have "(\<lambda>i. i + 1) ` set (rotate_part n R part) = set (parse_part n P part)"
    using Cons.prems by (intro part_agree) simp_all
  then show ?case
    using Cons.prems by (simp add: Cons.IH)
qed

lemma removePages_unfold:
  assumes "page_count io = Some n"
  shows "removePages io s =
     (if \<not> input_ok io then Inl (Error ''Input PDF not found'')
      else if filter (\<lambda>j. j \<notin> set (parsePageRange s n)) [1..n] = []
        then Inl (Error ''Cannot remove all pages'')
      else if \<not> save_ok io then Inl LibraryError
      else if \<not> output_ok io then Inl (Error ''Failed to create modified PDF'')
      else Inr (map (\<lambda>j. j - 1) (filter (\<lambda>j. j \<notin> set (parsePageRange s n)) [1..n])))"
  using assms by (simp add: removePages_def keep_loop_eq Let_def)

lemma kept_empty_iff:
  "filter (\<lambda>j. j \<notin> set ps) [1..n] = [] \<longleftrightarrow> {1..n} - set ps = {}"
proof -
  have "set (filter (\<lambda>j. j \<notin> set ps) [1..n]) = {1..n} - set ps" by auto
  then show ?thesis by (metis set_empty)
qed


section \<open>Testable values of the range parser\<close>

lemma parse_1_3_5: "parsePageRange ''1-3,5'' 10 = [1, 2, 3, 5]"
  by (simp add: parse_eval)

lemma parse_5_dash: "parsePageRange ''5-'' 10 = [5, 6, 7, 8, 9, 10]"
  by (simp add: parse_eval)

lemma parse_dash_3: "parsePageRange ''-3'' 10 = [1, 2, 3]"
  by (simp add: parse_eval)

lemma parse_1_3_2: "parsePageRange ''1-3,2'' 10 = [1, 2, 3]"
  by (simp add: parse_eval)

lemma parse_99: "parsePageRange ''99'' 10 = []"
  by (simp add: parse_eval)

text \<open>
  Claim C4. \<open>parsePageRange('1-3,5', 10) = [1,2,3,5]\<close>,
  \<open>parsePageRange('5-', 10) = [5,...,10]\<close>, \<open>parsePageRange('-3', 10) = [1,2,3]\<close>,
  \<open>parsePageRange('1-3,2', 10) = [1,2,3]\<close> with the duplicate removed, and
  \<open>splitPDF\<close> on a readable 10-page document with selector \<open>'99'\<close> throws
  \<open>Invalid page range\<close>, the parsed set being empty.
\<close>

theorem C4_parse_examples:
  assumes "input_ok io" and "page_count io = Some 10"
  shows "parsePageRange ''1-3,5'' 10 = [1, 2, 3, 5]
       \<and> parsePageRange ''5-'' 10 = [5, 6, 7, 8, 9, 10]
       \<and> parsePageRange ''-3'' 10 = [1, 2, 3]
       \<and> parsePageRange ''1-3,2'' 10 = [1, 2, 3]
       \<and> parsePageRange ''99'' 10 = []
       \<and> splitPDF io ''99'' = Inl (Error ''Invalid page range'')"
  using assms
  by (simp add: parse_1_3_5 parse_5_dash parse_dash_3 parse_1_3_2 parse_99 splitPDF_def)

theorem C4_parse_examples_witness:
  "input_ok \<lparr>input_ok = True, page_count = Some 10, save_ok = True, output_ok = True\<rparr>
   \<and> page_count \<lparr>input_ok = True, page_count = Some 10, save_ok = True, output_ok = True\<rparr> = Some 10
   \<and> parsePageRange ''1-3,2'' 10 = [1, 2, 3]
   \<and> splitPDF \<lparr>input_ok = True, page_count = Some 10, save_ok = True, output_ok = True\<rparr> ''99''
       = Inl (Error ''Invalid page range'')"
  using C4_parse_examples
    [of "\<lparr>input_ok = True, page_count = Some 10, save_ok = True, output_ok = True\<rparr>"]
  by simp


section \<open>rotatePDF against parsePageRange\<close>

lemma rotate_dash_3: "pagesToRotate ''-3'' 10 = []"
  by (simp add: pagesToRotate_def rotate_part_def js_prims)

lemma rotate_all_10: "pagesToRotate ''all'' 10 = [0, 1, 2, 3, 4, 5, 6, 7, 8, 9]"
  by (simp add: pagesToRotate_def upto_rec1)

lemma parse_all_10: "parsePageRange ''all'' 10 = []"
  by (simp add: parse_eval)

lemma rotate_5_dash_1_3: "pagesToRotate ''5-,1-3'' 10 = [4, 5, 6, 7, 8, 9, 0, 1, 2]"
  by (simp add: pagesToRotate_def rotate_part_def js_prims rotate_loop.simps)

lemma parse_5_dash_1_3: "parsePageRange ''5-,1-3'' 10 = [1, 2, 3, 5, 6, 7, 8, 9, 10]"
  by (simp add: parse_eval)

lemma numeric_5_dash_1_3: "range_starts_numeric ''5-,1-3''"
  by (simp add: range_starts_numeric_def js_prims)

lemma exact_5_dash_1_3: "range_numbers_exact ''5-,1-3''"
  by (simp add: range_numbers_exact_def js_prims)

text \<open>
  Claim C2, as the code has it. For every selector other than the literal \<open>all\<close> in
  which every range token has a numeric start, and for every page count, the pages that
  the inline parsing of \<open>rotatePDF\<close> selects are, shifted from 0-based to 1-based,
  exactly the pages of \<open>parsePageRange\<close>; a trailing dash such as \<open>5-\<close> is covered.
  The literal \<open>all\<close> is expanded by \<open>rotatePDF\<close> alone, and a range whose start is
  omitted or not numeric is outside this statement. The numbers of the selector are
  taken below \<open>2^53\<close>, where the loop counter of the source is exact.
\<close>

theorem C2_rotate_agrees_with_parsePageRange:
  assumes "pageRange \<noteq> ''all''" and "range_starts_numeric pageRange"
    and "range_numbers_exact pageRange"
  shows "set (map (\<lambda>i. i + 1) (pagesToRotate pageRange n)) = set (parsePageRange pageRange n)"
  using assms fold_agree [of "[]" "[]" "js_split CHR '','' pageRange" n]
  by (simp add: pagesToRotate_def parsePageRange_def range_starts_numeric_def)

theorem C2_rotate_agrees_witness:
  "''5-,1-3'' \<noteq> ''all'' \<and> range_starts_numeric ''5-,1-3'' \<and> range_numbers_exact ''5-,1-3''
   \<and> set (map (\<lambda>i. i + 1) (pagesToRotate ''5-,1-3'' 10)) = set (parsePageRange ''5-,1-3'' 10)"
  using C2_rotate_agrees_with_parsePageRange [of "''5-,1-3''" 10] numeric_5_dash_1_3
    exact_5_dash_1_3
  by simp

text \<open>
  The claim as stated fails: on \<open>-3\<close> with 10 pages \<open>parsePageRange\<close> selects pages
  1 to 3 and \<open>rotatePDF\<close> selects none, and on \<open>all\<close> \<open>rotatePDF\<close> selects every
  page and \<open>parsePageRange\<close> none.
\<close>

theorem C2_rotate_differs_counterexample:
  "pagesToRotate ''-3'' 10 = [] \<and> parsePageRange ''-3'' 10 = [1, 2, 3]
   \<and> pagesToRotate ''all'' 10 = [0, 1, 2, 3, 4, 5, 6, 7, 8, 9] \<and> parsePageRange ''all'' 10 = []"
  by (simp add: rotate_dash_3 parse_dash_3 rotate_all_10 parse_all_10)


section \<open>An empty parsed set\<close>

text \<open>
  Claim C3, as the code has it. When \<open>parsePageRange\<close> returns the empty array for the
  document's page count, \<open>splitPDF\<close> and \<open>extractPages\<close> fail, with
  \<open>Invalid page range\<close> if the input file is readable. \<open>removePages\<close> does not
  treat the empty set as an error: with a readable input of at least one page and a
  successful write it keeps every page, and it fails only if the input is unreadable,
  the document has no page, or writing the output fails.
\<close>

theorem C3_empty_parse:
  assumes "parsePageRange s n = []" and "page_count io = Some n"
  shows "isl (splitPDF io s) \<and> isl (extractPages io s)
       \<and> (input_ok io \<longrightarrow> splitPDF io s = Inl (Error ''Invalid page range''))
       \<and> (input_ok io \<and> save_ok io \<and> output_ok io \<and> 1 \<le> n
            \<longrightarrow> removePages io s = Inr (map (\<lambda>j. j - 1) [1..n]))
       \<and> (isl (removePages io s) \<longleftrightarrow> \<not> input_ok io \<or> n < 1 \<or> \<not> save_ok io \<or> \<not> output_ok io)"
  using assms
  by (auto simp: splitPDF_def extractPages_def removePages_def keep_loop_eq upto_rec1)

theorem C3_empty_parse_witness:
  "parsePageRange ''99'' 10 = []
   \<and> page_count \<lparr>input_ok = True, page_count = Some 10, save_ok = True, output_ok = True\<rparr> = Some 10
   \<and> splitPDF \<lparr>input_ok = True, page_count = Some 10, save_ok = True, output_ok = True\<rparr> ''99''
       = Inl (Error ''Invalid page range'')
   \<and> \<not> isl (removePages \<lparr>input_ok = True, page_count = Some 10, save_ok = True, output_ok = True\<rparr> ''99'')"
  using C3_empty_parse
    [of "''99''" 10 "\<lparr>input_ok = True, page_count = Some 10, save_ok = True, output_ok = True\<rparr>"]
    parse_99
  by simp

text \<open>
  The claim as stated fails for \<open>removePages\<close>: on a readable 10-page document the
  selector \<open>99\<close> parses to the empty set and \<open>removePages\<close> succeeds, keeping all ten
  pages.
\<close>

theorem C3_removePages_counterexample:
  "parsePageRange ''99'' 10 = []
   \<and> removePages \<lparr>input_ok = True, page_count = Some 10, save_ok = True, output_ok = True\<rparr> ''99''
       = Inr [0, 1, 2, 3, 4, 5, 6, 7, 8, 9]"
  by (simp add: parse_99 removePages_def keep_loop.simps)


section \<open>removePages keeps the complement\<close>

lemma removePages_2_3: 
  "removePages \<lparr>input_ok = True, page_count = Some 5, save_ok = True, output_ok = True\<rparr> ''2-3''
     = Inr [0, 3, 4]"
  by (simp add: removePages_def parse_eval keep_loop.simps)

lemma parse_2_3: "parsePageRange ''2-3'' 5 = [2, 3]"
  by (simp add: parse_eval)

lemma parse_1_5: "parsePageRange ''1-5'' 5 = [1, 2, 3, 4, 5]"
  by (simp add: parse_eval)

text \<open>
  Claim C5. For every selector \<open>s\<close> and page count \<open>n\<close>, when \<open>removePages\<close>
  succeeds the pages it keeps are, as 1-based numbers and in ascending order, exactly
  \<open>{1..n}\<close> without \<open>parsePageRange(s, n)\<close>; when that complement is empty
  \<open>removePages\<close> fails, with \<open>Cannot remove all pages\<close> if the input is readable; and
  when the complement is not empty and reading and writing succeed it does not fail.
\<close>

theorem C5_removePages_complement:
  assumes "page_count io = Some n"
  shows "(removePages io s = Inr keep \<longrightarrow>
            map (\<lambda>i. i + 1) keep = filter (\<lambda>j. j \<notin> set (parsePageRange s n)) [1..n]
            \<and> set (map (\<lambda>i. i + 1) keep) = {1..n} - set (parsePageRange s n))
       \<and> ({1..n} - set (parsePageRange s n) = {} \<longrightarrow> isl (removePages io s))
       \<and> ({1..n} - set (parsePageRange s n) = {} \<and> input_ok io
            \<longrightarrow> removePages io s = Inl (Error ''Cannot remove all pages''))
       \<and> ({1..n} - set (parsePageRange s n) \<noteq> {} \<and> input_ok io \<and> save_ok io \<and> output_ok io
            \<longrightarrow> \<not> isl (removePages io s))"
proof -
  let ?rest = "filter (\<lambda>j. j \<notin> set (parsePageRange s n)) [1..n]"
  note unf = removePages_unfold [OF assms, of s]
  have set_rest: "set ?rest = {1..n} - set (parsePageRange s n)" by auto
  have shift: "map (\<lambda>i. i + 1) (map (\<lambda>j. j - 1) ?rest) = ?rest"
    by (simp add: comp_def)
  have a: "map (\<lambda>i. i + 1) keep = ?rest" if "removePages io s = Inr keep"
  proof -
    from that have "keep = map (\<lambda>j. j - 1) ?rest"
      unfolding unf by (simp split: if_splits)
    with shift show ?thesis by simp
  qed
  have a': "set (map (\<lambda>i. i + 1) keep) = {1..n} - set (parsePageRange s n)"
    if "removePages io s = Inr keep"
    using a [OF that] set_rest by simp
  have b: "isl (removePages io s)" if "{1..n} - set (parsePageRange s n) = {}"
    using that unfolding unf kept_empty_iff by simp
  have c: "removePages io s = Inl (Error ''Cannot remove all pages'')"
    if "{1..n} - set (parsePageRange s n) = {}" "input_ok io"
    using that unfolding unf kept_empty_iff by simp
  have d: "\<not> isl (removePages io s)"
    if "{1..n} - set (parsePageRange s n) \<noteq> {}" "input_ok io" "save_ok io" "output_ok io"
    using that unfolding unf kept_empty_iff by simp
  from a a' b c d show ?thesis by blast
qed


theorem C5_removePages_complement_witness:
  "page_count \<lparr>input_ok = True, page_count = Some 5, save_ok = True, output_ok = True\<rparr> = Some 5
   \<and> removePages \<lparr>input_ok = True, page_count = Some 5, save_ok = True, output_ok = True\<rparr> ''2-3''
       = Inr [0, 3, 4]
   \<and> set (map (\<lambda>i. i + 1) [0, 3, 4]) = {1..5} - set (parsePageRange ''2-3'' 5)
   \<and> {1..5} - set (parsePageRange ''1-5'' 5) = {}
   \<and> removePages \<lparr>input_ok = True, page_count = Some 5, save_ok = True, output_ok = True\<rparr> ''1-5''
       = Inl (Error ''Cannot remove all pages'')"
proof -
  let ?io = "\<lparr>input_ok = True, page_count = Some 5, save_ok = True, output_ok = True\<rparr>"
  have pc: "page_count ?io = Some 5" by simp
  have all_removed: "{1..5} - set (parsePageRange ''1-5'' 5) = {}"
    by (auto simp: parse_1_5)
  from C5_removePages_complement [OF pc, of "''2-3''" "[0, 3, 4]"] removePages_2_3
  have kept: "set (map (\<lambda>i. i + 1) [0, 3, 4]) = {1..5} - set (parsePageRange ''2-3'' 5)"
    by blast
  from C5_removePages_complement [OF pc, of "''1-5''" "[]"] all_removed
  have failed: "removePages ?io ''1-5'' = Inl (Error ''Cannot remove all pages'')"
    by simp
  from pc removePages_2_3 kept all_removed failed show ?thesis by blast
qed


section \<open>Expiry of sessions\<close>

lemma map_of_expire_entries_None:
  "map_of st u = None \<Longrightarrow> map_of (expire_entries now entries st) u = None"
  by (induction entries arbitrary: st) (auto simp: delete_conv)

lemma expire_entries_expired:
  assumes "(u, s) \<in> set entries" and "now - lastActivity s > SESSION_TIMEOUT"
  shows "map_of (expire_entries now entries st) u = None"
  using assms
proof (induction entries arbitrary: st)
  case Nil
  then show ?case by simp
next
  case (Cons e entries)
  obtain u' s' where e: "e = (u', s')" by (cases e)
  show ?case
  proof (cases "(u, s) = e")
    case True
    with e Cons.prems show ?thesis
      by (simp add: map_of_expire_entries_None delete_conv)
  next
    case False
    with Cons.prems have "(u, s) \<in> set entries" by simp
    from Cons.IH [OF this Cons.prems(2)] e show ?thesis by simp
  qed
qed

text \<open>
  Claim C7. A session whose \<open>lastActivity\<close> lies more than \<open>SESSION_TIMEOUT\<close>
  (30 minutes) before the moment \<open>cleanupExpiredSessions\<close> runs is absent from the store
  afterwards, and the next \<open>getSession\<close> for that user returns, and stores, a fresh
  session: step \<open>idle\<close>, no uploaded files, empty metadata, no selected operation.
\<close>

theorem C7_expired_session_replaced:
  assumes "map_of userSessions uid = Some s"
    and "now - lastActivity s > SESSION_TIMEOUT"
  shows "SESSION_TIMEOUT = 30 * 60 * 1000
       \<and> map_of (cleanupExpiredSessions now userSessions) uid = None
       \<and> fst (getSession uid now' (cleanupExpiredSessions now userSessions))
           = \<lparr>userId = uid, uploadedFiles = [], currentStep = ''idle'', selectedOperation = None,
              metadata = [], lastActivity = now'\<rparr>
       \<and> map_of (snd (getSession uid now' (cleanupExpiredSessions now userSessions))) uid
           = Some \<lparr>userId = uid, uploadedFiles = [], currentStep = ''idle'',
                   selectedOperation = None, metadata = [], lastActivity = now'\<rparr>"
proof -
  from assms(1) have "(uid, s) \<in> set userSessions" by (rule map_of_SomeD)
  then have gone: "map_of (cleanupExpiredSessions now userSessions) uid = None"
    unfolding cleanupExpiredSessions_def using assms(2) by (rule expire_entries_expired)
  then show ?thesis
    by (simp add: getSession_def newSession_def update_conv Let_def SESSION_TIMEOUT_def)
qed


theorem C7_expired_session_replaced_witness:
  "map_of [(''u1'', \<lparr>userId = ''u1'', uploadedFiles = [], currentStep = ''waiting_for_file'',
                      selectedOperation = Some ''merge_pdf'', metadata = [(''angle'', ''90'')],
                      lastActivity = 0\<rparr>)] ''u1''
     = Some \<lparr>userId = ''u1'', uploadedFiles = [], currentStep = ''waiting_for_file'',
             selectedOperation = Some ''merge_pdf'', metadata = [(''angle'', ''90'')],
             lastActivity = 0\<rparr>
   \<and> 1800001 - lastActivity \<lparr>userId = ''u1'', uploadedFiles = [], currentStep = ''waiting_for_file'',
             selectedOperation = Some ''merge_pdf'', metadata = [(''angle'', ''90'')],
             lastActivity = 0\<rparr> > SESSION_TIMEOUT
   \<and> fst (getSession ''u1'' 1800002
          (cleanupExpiredSessions 1800001
             [(''u1'', \<lparr>userId = ''u1'', uploadedFiles = [], currentStep = ''waiting_for_file'',
                        selectedOperation = Some ''merge_pdf'', metadata = [(''angle'', ''90'')],
                        lastActivity = 0\<rparr>)]))
       = \<lparr>userId = ''u1'', uploadedFiles = [], currentStep = ''idle'', selectedOperation = None,
          metadata = [], lastActivity = 1800002\<rparr>"
proof -
  let ?s = "\<lparr>userId = ''u1'', uploadedFiles = [], currentStep = ''waiting_for_file'',
             selectedOperation = Some ''merge_pdf'', metadata = [(''angle'', ''90'')],
             lastActivity = 0\<rparr>"
  have stored: "map_of [(''u1'', ?s)] ''u1'' = Some ?s" by simp
  have old: "1800001 - lastActivity ?s > SESSION_TIMEOUT" by (simp add: SESSION_TIMEOUT_def)
  from C7_expired_session_replaced [OF stored old, of 1800002] stored old
  show ?thesis by blast
qed


section \<open>The sweep of the staging directory\<close>

lemma sweep_files_map_of:
  "map_of (sweep_files fs now files dir) f =
     (if f \<in> set files \<and> stat_ok fs f \<and> remove_ok fs f
         \<and> (case map_of dir f of None \<Rightarrow> False | Some m \<Rightarrow> of_int now - m > of_int maxAge)
      then None else map_of dir f)"
proof (induction files arbitrary: dir)
  case Nil
  then show ?case by simp
next
  case (Cons f0 files)
  show ?case
    by (simp add: Cons.IH delete_conv split: option.split)
qed

text \<open>
  Claim C8. For a file of the staging directory with last-modified time \<open>mtimeMs\<close>,
  one run of \<open>cleanupOldFiles\<close> at time \<open>now\<close> deletes it if and only if
  \<open>now - mtimeMs\<close> exceeds one hour (3600000 ms), provided the directory can be listed
  and the \<open>stat\<close> and the removal of that file succeed. Whatever fails, a deleted file
  was older than the threshold, and a file not older than the threshold is retained
  unchanged.
\<close>

theorem C8_sweep_threshold:
  assumes "map_of dir file = Some mtimeMs"
  shows "(readdir_ok fs \<and> stat_ok fs file \<and> remove_ok fs file \<longrightarrow>
            (map_of (cleanupOldFiles fs now dir) file = None
               \<longleftrightarrow> of_int now - mtimeMs > (3600000 :: rat)))
       \<and> (map_of (cleanupOldFiles fs now dir) file = None
            \<longrightarrow> of_int now - mtimeMs > (3600000 :: rat))
       \<and> (\<not> of_int now - mtimeMs > (3600000 :: rat)
            \<longrightarrow> map_of (cleanupOldFiles fs now dir) file = Some mtimeMs)"
proof -
  from assms have "(file, mtimeMs) \<in> set dir" by (rule map_of_SomeD)
  then have "file \<in> fst ` set dir" by force
  then show ?thesis
    using assms by (simp add: cleanupOldFiles_def sweep_files_map_of maxAge_def)
qed


theorem C8_sweep_threshold_witness:
  "map_of [(''old.pdf'', 1000), (''new.pdf'', 4000000)] ''old.pdf'' = Some (1000 :: rat)
   \<and> map_of [(''old.pdf'', 1000), (''new.pdf'', 4000000)] ''new.pdf'' = Some (4000000 :: rat)
   \<and> of_int 5000000 - (1000 :: rat) > 3600000
   \<and> \<not> of_int 5000000 - (4000000 :: rat) > 3600000
   \<and> map_of (cleanupOldFiles
               \<lparr>readdir_ok = True, stat_ok = (\<lambda>f. True), remove_ok = (\<lambda>f. True)\<rparr> 5000000
               [(''old.pdf'', 1000), (''new.pdf'', 4000000)]) ''old.pdf'' = None
   \<and> map_of (cleanupOldFiles
               \<lparr>readdir_ok = True, stat_ok = (\<lambda>f. True), remove_ok = (\<lambda>f. True)\<rparr> 5000000
               [(''old.pdf'', 1000), (''new.pdf'', 4000000)]) ''new.pdf'' = Some 4000000"
proof -
  let ?dir = "[(''old.pdf'', 1000), (''new.pdf'', 4000000)] :: temp_dir"
  let ?fs = "\<lparr>readdir_ok = True, stat_ok = (\<lambda>f. True), remove_ok = (\<lambda>f. True)\<rparr>"
  have old: "map_of ?dir ''old.pdf'' = Some 1000" by simp
  have new: "map_of ?dir ''new.pdf'' = Some 4000000" by simp
  have age_old: "of_int 5000000 - (1000 :: rat) > 3600000" by simp
  have age_new: "\<not> of_int 5000000 - (4000000 :: rat) > 3600000" by simp
  from C8_sweep_threshold [OF old, of ?fs 5000000] age_old
  have deleted: "map_of (cleanupOldFiles ?fs 5000000 ?dir) ''old.pdf'' = None" by simp
  from C8_sweep_threshold [OF new, of ?fs 5000000] age_new
  have retained: "map_of (cleanupOldFiles ?fs 5000000 ?dir) ''new.pdf'' = Some 4000000" by simp
  from old new age_old age_new deleted retained show ?thesis by blast
qed


section \<open>File type detection\<close>

lemma extension_upper_pdf: "getFileExtension ''/tmp/temp_1_ab.PDF'' = ''.pdf''"
  by (simp add: getFileExtension_def extname_def toLowerCase_def char_of_eq_iff)

text \<open>
  Claim C9. When the extension of the file name is one of the recognized extensions,
  \<open>detectFileType\<close> returns the same tag whatever the MIME type argument is, so the
  MIME type is consulted only for an unrecognized extension; and every result is one of
  the seven tags \<open>pdf\<close>, \<open>image\<close>, \<open>word\<close>, \<open>powerpoint\<close>, \<open>excel\<close>,
  \<open>html\<close>, \<open>unknown\<close>.
\<close>

theorem C9_detectFileType_extension_first:
  "(getFileExtension filename \<in> set recognizedExtensions
      \<longrightarrow> detectFileType filename mimeType1 = detectFileType filename mimeType2)
   \<and> detectFileType filename mimeType \<in> set fileTypeTags"
  by (simp add: detectFileType_def recognizedExtensions_def fileTypeTags_def Let_def
           split: option.split)

theorem C9_detectFileType_extension_first_witness:
  "getFileExtension ''/tmp/temp_1_ab.PDF'' \<in> set recognizedExtensions
   \<and> detectFileType ''/tmp/temp_1_ab.PDF'' None
       = detectFileType ''/tmp/temp_1_ab.PDF'' (Some ''image/png'')
   \<and> detectFileType ''/tmp/temp_1_ab.PDF'' (Some ''image/png'') \<in> set fileTypeTags"
proof -
  have rec: "getFileExtension ''/tmp/temp_1_ab.PDF'' \<in> set recognizedExtensions"
    by (simp add: extension_upper_pdf recognizedExtensions_def)
  from C9_detectFileType_extension_first
         [of "''/tmp/temp_1_ab.PDF''" None "Some ''image/png''" "Some ''image/png''"] rec
  show ?thesis by blast
qed


section \<open>The comparison record\<close>

lemma every_byte_equal_iff:
  assumes "length b1 = length b2"
  shows "every_byte_equal b1 b2 \<longleftrightarrow> b1 = b2"
proof -
  have "every_byte_equal b1 b2 \<longleftrightarrow> (\<forall>i < length b1. b1 ! i = b2 ! i)"
    using assms
    by (auto simp: every_byte_equal_def list_all_iff in_set_enumerate_eq)
  then show ?thesis
    using assms by (auto simp: list_eq_iff_nth_eq)
qed

text \<open>
  Claim C10. For two readable input PDFs, \<open>comparePDFs\<close> returns a record in which
  \<open>identical\<close> holds only if \<open>pageCountMatch\<close> and \<open>fileSizeMatch\<close> hold;
  \<open>fileSizeMatch\<close> holds exactly when the two files have the same number of bytes and
  \<open>pageCountMatch\<close> exactly when they have the same number of pages. Moreover
  \<open>identical\<close> holds exactly when the two byte sequences are equal.
\<close>

theorem C10_comparePDFs_invariant:
  assumes "verifyFile fs p1" and "verifyFile fs p2"
    and "readFile fs p1 = Some b1" and "readFile fs p2 = Some b2"
    and "loadPageCount fs b1 = Some c1" and "loadPageCount fs b2 = Some c2"
  shows "\<exists>d. comparePDFs fs p1 p2 = Inr d
           \<and> (identical d \<longrightarrow> pageCountMatch d \<and> fileSizeMatch d)
           \<and> (fileSizeMatch d \<longleftrightarrow> length b1 = length b2)
           \<and> (pageCountMatch d \<longleftrightarrow> c1 = c2)
           \<and> (identical d \<longleftrightarrow> b1 = b2)"
proof (cases "c1 = c2 \<and> length b1 = length b2")
  case True
  then have "every_byte_equal b1 b2 \<longleftrightarrow> b1 = b2"
    by (simp add: every_byte_equal_iff)
  with True assms show ?thesis
    by (simp add: comparePDFs_def Let_def)
next
  case False
  have "b1 \<noteq> b2" using False assms by auto
  with False assms show ?thesis
    by (auto simp: comparePDFs_def Let_def)
qed


theorem C10_comparePDFs_invariant_witness:
  "\<exists>d. comparePDFs
          \<lparr>verifyFile = (\<lambda>p. True),
           readFile = (\<lambda>p. if p = ''a.pdf'' then Some [37, 80] else Some [37, 81]),
           loadPageCount = (\<lambda>b. Some 1)\<rparr> ''a.pdf'' ''b.pdf'' = Inr d
        \<and> \<not> identical d \<and> pageCountMatch d \<and> fileSizeMatch d"
proof -
  let ?fs = "\<lparr>verifyFile = (\<lambda>p. True),
              readFile = (\<lambda>p. if p = ''a.pdf'' then Some [37, 80] else Some [37, 81 :: 8 word]),
              loadPageCount = (\<lambda>b. Some (1 :: int))\<rparr>"
  have v: "verifyFile ?fs ''a.pdf''" "verifyFile ?fs ''b.pdf''" by simp_all
  have r1: "readFile ?fs ''a.pdf'' = Some [37, 80]" by simp
  have r2: "readFile ?fs ''b.pdf'' = Some [37, 81]" by simp
  have l1: "loadPageCount ?fs [37, 80] = Some 1" by simp
  have l2: "loadPageCount ?fs [37, 81] = Some 1" by simp
  from C10_comparePDFs_invariant [OF v r1 r2 l1 l2]
  obtain d where "comparePDFs ?fs ''a.pdf'' ''b.pdf'' = Inr d"
    and "fileSizeMatch d \<longleftrightarrow> length [37, 80 :: 8 word] = length [37, 81 :: 8 word]"
    and "pageCountMatch d \<longleftrightarrow> (1 :: int) = 1"
    and "identical d \<longleftrightarrow> [37, 80 :: 8 word] = [37, 81]"
    by blast
  then show ?thesis by simp
qed


section \<open>Sessions that exist, replies that fail\<close>

lemma getSession_existing:
  assumes "map_of ss uid = Some s"
  shows "getSession uid now ss = (s \<lparr>lastActivity := now\<rparr>, AList.update uid (s \<lparr>lastActivity := now\<rparr>) ss)"
  using assms by (simp add: getSession_def Let_def)

lemma getSessionFiles_existing:
  assumes "map_of ss uid = Some s"
  shows "getSessionFiles uid now ss = (uploadedFiles s, AList.update uid (s \<lparr>lastActivity := now\<rparr>) ss)"
  using assms by (simp add: getSessionFiles_def getSession_existing)









lemma and_then_None: "and_then (None, x) k = k x"
  by (simp add: and_then_def)

lemma addFileToSession_existing:
  assumes "map_of ss uid = Some s"
  shows "map_of (addFileToSession uid info now ss) uid
           = Some (s \<lparr>uploadedFiles := uploadedFiles s @ [info], lastActivity := now\<rparr>)"
  using assms by (simp add: addFileToSession_def getSession_existing update_conv)




section \<open>A failed operation\<close>




lemma reply_error_example: "reply_error example_world n = None"
  by (simp add: example_world_def)







section \<open>The second file of a comparison\<close>

lemma extension_temp_2_b: "getFileExtension ''/tmp/temp_2_b.pdf'' = ''.pdf''"
  by (simp add: getFileExtension_def extname_def toLowerCase_def char_of_eq_iff)

lemma upload_second_pdf:
  "handleFileUpload example_world second_pdf_message ''u1'' 7
     \<lparr>sessions = [(''u1'', compare_session)], outbox = [], attempts = 0\<rparr>
   = (None,
      \<lparr>sessions =
         [(''u1'', compare_session
                    \<lparr>uploadedFiles := [example_pdf1, example_pdf2], lastActivity := 7\<rparr>)],
       outbox = [Text ''Downloading file...'', FileReceived 2], attempts = 2\<rparr>)"
  by (simp add: handleFileUpload_def handleFileUpload_try_def second_pdf_message_def
        example_world_def getTempFilePath_def
        detectFileType_def extension_temp_2_b addFileToSession_def getSession_def
        getSessionFiles_def checkOperationRequirements_def Let_def send_reply_def and_then_def
        compare_session_def example_pdf2_def truthy_def str_or_def)

lemma compare_examples:
  "comparePDFs (pdf_files example_world) ''/tmp/temp_1_a.pdf'' ''/tmp/temp_2_b.pdf''
     = Inr example_comparison"
  by (simp add: comparePDFs_def example_world_def example_comparison_def Let_def
        every_byte_equal_def)

lemma dispatch_compare_examples:
  "dispatch example_world (Some ''compare_pdf'') [example_pdf1, example_pdf2] md
     = Compared example_comparison"
proof -
  have p: "f_path example_pdf1 = ''/tmp/temp_1_a.pdf''" "f_path example_pdf2 = ''/tmp/temp_2_b.pdf''"
    "f_type example_pdf1 = ''pdf''" "f_type example_pdf2 = ''pdf''"
    by (simp_all add: example_pdf1_def example_pdf2_def)
  show ?thesis
    by (simp add: dispatch_def p compare_examples)
qed

text \<open>
  With both PDFs uploaded, the comparison runs when the user sends one more text: the
  step \<open>waiting_for_file\<close> makes \<open>handleStepOperation\<close> store the text as
  \<open>metadata.file\<close> and call \<open>processOperation\<close>.
\<close>

lemma compare_runs_on_next_text:
  "handleStepOperation example_world text_message ''u1'' 8
     \<lparr>sessions =
        [(''u1'', compare_session
                   \<lparr>uploadedFiles := [example_pdf1, example_pdf2], lastActivity := 7\<rparr>)],
      outbox = [Text ''Downloading file...'', FileReceived 2], attempts = 2\<rparr>
   = (None,
      \<lparr>sessions =
         [(''u1'', \<lparr>userId = ''u1'', uploadedFiles = [], currentStep = ''idle'',
                    selectedOperation = None, metadata = [(''file'', ''ok'')], lastActivity = 8\<rparr>)],
       outbox = [Text ''Downloading file...'', FileReceived 2,
                 Text ''Processing... This may take a moment.'',
                 ComparisonResults example_comparison], attempts = 4\<rparr>)"
  by (simp add: handleStepOperation_def text_message_def compare_session_def getSession_def
        getSessionFiles_def Let_def js_trim_def isWhiteSpace_def set_metadata_def
        with_sessions_def updateSession_def processOperation_def processOperation_try_def
        dispatch_compare_examples send_reply_def and_then_def clearSessionFiles_def
        idle_reset_def reply_error_example)

text \<open>
  Claim C1 says that the second uploaded PDF advances a \<open>compare_pdf\<close> session to
  \<open>processing\<close> and runs the comparison. The code does not: for a session whose
  selected operation is \<open>compare_pdf\<close>, \<open>handleFileUpload\<close> never calls
  \<open>processOperation\<close>, however many files are present and whatever the channel does.
  The step and the selected operation are as before, and no comparison result is among
  the replies sent.
\<close>

theorem C1_upload_never_runs_comparison:
  assumes s: "map_of (sessions st) uid = Some s"
    and op: "selectedOperation s = Some ''compare_pdf''"
  shows "\<exists>s' extra.
           map_of (sessions (snd (handleFileUpload w msg uid now st))) uid = Some s'
         \<and> currentStep s' = currentStep s
         \<and> selectedOperation s' = Some ''compare_pdf''
         \<and> outbox (snd (handleFileUpload w msg uid now st)) = outbox st @ extra
         \<and> (\<forall>c. ComparisonResults c \<notin> set extra)"
proof -
  define Q where "Q x \<longleftrightarrow>
      (\<exists>s' extra. map_of (sessions x) uid = Some s'
         \<and> currentStep s' = currentStep s
         \<and> selectedOperation s' = Some ''compare_pdf''
         \<and> outbox x = outbox st @ extra
         \<and> (\<forall>c. ComparisonResults c \<notin> set extra))" for x :: bot_state
  have QI: "Q x" if "map_of (sessions x) uid = Some s'" "currentStep s' = currentStep s"
      "selectedOperation s' = Some ''compare_pdf''" "outbox x = outbox st @ extra"
      "\<forall>c. ComparisonResults c \<notin> set extra" for x s' extra
    unfolding Q_def using that by blast
  have Q0: "Q st"
    using s op by (intro QI [of st s "[]"]) simp_all
  have Qreply: "Q (snd (send_reply w r x))" if qx: "Q x" and r: "\<forall>c. r \<noteq> ComparisonResults c"
    for r x
  proof -
    from qx obtain s' extra where x: "map_of (sessions x) uid = Some s'"
      "currentStep s' = currentStep s" "selectedOperation s' = Some ''compare_pdf''"
      "outbox x = outbox st @ extra" "\<forall>c. ComparisonResults c \<notin> set extra"
      unfolding Q_def by blast
    show ?thesis
    proof (cases "reply_error w (attempts x)")
      case None
      have "\<forall>c. ComparisonResults c \<notin> set (extra @ [r])" using x(5) r by auto
      with x None show ?thesis
        by (intro QI [of _ s' "extra @ [r]"]) (simp_all add: send_reply_def)
    next
      case (Some m)
      with x show ?thesis
        by (intro QI [of _ s' extra]) (simp_all add: send_reply_def)
    qed
  qed
  have Qsessions: "Q (x \<lparr>sessions := ss\<rparr>)"
    if qx: "Q x" and m: "map_of ss uid = Some s'" and c: "currentStep s' = currentStep s"
      and o: "selectedOperation s' = Some ''compare_pdf''" for x ss s'
  proof -
    from qx obtain extra where "outbox x = outbox st @ extra"
      "\<forall>c. ComparisonResults c \<notin> set extra"
      unfolding Q_def by blast
    with m c o show ?thesis by (intro QI [of _ s' extra]) simp_all
  qed
  have Qcheck: "Q (snd (checkOperationRequirements w uid now x))" if qx: "Q x" for x
  proof -
    from qx obtain s' where m: "map_of (sessions x) uid = Some s'"
      and c: "currentStep s' = currentStep s" and o: "selectedOperation s' = Some ''compare_pdf''"
      unfolding Q_def by blast
    let ?s = "s' \<lparr>lastActivity := now\<rparr>"
    let ?ss = "AList.update uid ?s (sessions x)"
    let ?x1 = "x \<lparr>sessions := ?ss\<rparr>"
    have g1: "getSession uid now (sessions x) = (?s, ?ss)"
      using m by (rule getSession_existing)
    have m1: "map_of ?ss uid = Some ?s" by (simp add: update_conv)
    have g2: "getSessionFiles uid now ?ss = (uploadedFiles s', ?ss)"
      using getSessionFiles_existing [OF m1, of now] by simp
    have q1: "Q ?x1"
      using qx m1 c o by (intro Qsessions [of x ?ss ?s]) simp_all
    have unfold: "checkOperationRequirements w uid now x =
       (if length (uploadedFiles s') = 0
        then send_reply w (Text ''Please send the first PDF file.'') ?x1
        else if length (uploadedFiles s') = 1
          then send_reply w (Text ''Please send the second PDF file to compare.'') ?x1
        else (None, ?x1))"
      using o by (simp add: checkOperationRequirements_def g1 g2 Let_def)
    show ?thesis
      unfolding unfold using q1 by (simp add: Qreply)
  qed
  have Qtry: "Q (snd (handleFileUpload_try w msg uid now st))"
  proof -
    let ?d = "Text ''Downloading file...''"
    obtain r0 x0 where r0: "send_reply w ?d st = (r0, x0)" by (cases "send_reply w ?d st")
    have q0: "Q x0" using Qreply [OF Q0, of ?d] r0 by simp
    show ?thesis
    proof (cases r0)
      case (Some e)
      with r0 q0 show ?thesis by (simp add: handleFileUpload_try_def and_then_def)
    next
      case None
      note r0 = r0 [unfolded None]
      show ?thesis
      proof (cases "downloadMedia msg")
        case (Inl e)
        with r0 q0 show ?thesis by (simp add: handleFileUpload_try_def and_then_def)
      next
        case (Inr m)
        show ?thesis
        proof (cases m)
          case None
          with Inr r0 q0 show ?thesis
            by (simp add: handleFileUpload_try_def and_then_def Qreply)
        next
          case (Some md)
          define fileExtension where "fileExtension =
                     (if js_includes ''pdf'' (mimetype md) then ''.pdf''
                      else if js_includes ''image'' (mimetype md) then ''.jpg''
                      else if js_includes ''word'' (mimetype md) then ''.docx''
                      else if js_includes ''presentation'' (mimetype md) then ''.pptx''
                      else if js_includes ''spreadsheet'' (mimetype md) then ''.xlsx''
                      else if js_includes ''html'' (mimetype md) then ''.html''
                      else ''.bin'')"
          define filePath where "filePath = getTempFilePath w fileExtension"
          define info where "info =
              \<lparr>f_path = filePath, f_type = detectFileType filePath (Some (mimetype md)),
               f_mimetype = mimetype md, f_size = length (m_data md),
               f_filename = str_or (m_filename md) (''file'' @ fileExtension)\<rparr>"
          let ?f = "FileReceived (length (m_data md))"
          define body where "body I =
              (case getSession uid now (addFileToSession uid I now (sessions x0)) of
                 (session, ss2) \<Rightarrow>
                   and_then (send_reply w ?f (x0 \<lparr>sessions := ss2\<rparr>))
                     (\<lambda>st2. if truthy (selectedOperation session)
                            then checkOperationRequirements w uid now st2
                            else (None, st2)))" for I
          from q0 obtain s' where m0: "map_of (sessions x0) uid = Some s'"
            and c0: "currentStep s' = currentStep s"
            and o0: "selectedOperation s' = Some ''compare_pdf''"
            unfolding Q_def by blast
          have hf: "handleFileUpload_try w msg uid now st =
              (if \<not> writeFile_ok w filePath then (Some LibraryError, x0)
               else if \<not> verifyFile (pdf_files w) filePath
                 then send_reply w (Text ''Failed to save file. Please try again.'') x0
               else body info)"
            using Inr Some r0
            by (simp add: handleFileUpload_try_def and_then_None Let_def body_def
                  fileExtension_def filePath_def info_def)
          have last: "Q (snd (body I))" for I
          proof -
            let ?s1 = "s' \<lparr>uploadedFiles := uploadedFiles s' @ [I], lastActivity := now\<rparr>"
            let ?ss1 = "addFileToSession uid I now (sessions x0)"
            let ?ss2 = "AList.update uid ?s1 ?ss1"
            have a1: "map_of ?ss1 uid = Some ?s1"
              using m0 by (rule addFileToSession_existing)
            have g: "getSession uid now ?ss1 = (?s1, ?ss2)"
              using getSession_existing [OF a1, of now] by simp
            have m2: "map_of ?ss2 uid = Some ?s1" by (simp add: update_conv)
            have q2: "Q (x0 \<lparr>sessions := ?ss2\<rparr>)"
              using q0 m2 c0 o0 by (intro Qsessions [of x0 ?ss2 ?s1]) simp_all
            have tr: "truthy (selectedOperation ?s1)" using o0 by (simp add: truthy_def)
            have b: "body I = and_then (send_reply w ?f (x0 \<lparr>sessions := ?ss2\<rparr>))
                                (checkOperationRequirements w uid now)"
              unfolding body_def g using tr by simp
            obtain r2 x2 where r2: "send_reply w ?f (x0 \<lparr>sessions := ?ss2\<rparr>) = (r2, x2)"
              by (cases "send_reply w ?f (x0 \<lparr>sessions := ?ss2\<rparr>)")
            have qx2: "Q x2" using Qreply [OF q2, of ?f] r2 by simp
            show ?thesis
              unfolding b r2 using qx2 by (cases r2) (simp_all add: and_then_def Qcheck)
          qed
          show ?thesis
            unfolding hf using q0 last by (simp add: Qreply)
        qed
      qed
    qed
  qed
  have "Q (snd (handleFileUpload w msg uid now st))"
  proof -
    obtain r x where t: "handleFileUpload_try w msg uid now st = (r, x)"
      by (cases "handleFileUpload_try w msg uid now st")
    have qx: "Q x" using Qtry t by simp
    show ?thesis
      using t qx by (cases r) (simp_all add: handleFileUpload_def Qreply)
  qed
  then show ?thesis unfolding Q_def .
qed

theorem C1_upload_never_runs_comparison_witness:
  "map_of (sessions \<lparr>sessions = [(''u1'', compare_session)], outbox = [], attempts = 0\<rparr>) ''u1''
     = Some compare_session
   \<and> selectedOperation compare_session = Some ''compare_pdf''
   \<and> uploadedFiles compare_session = [example_pdf1]
   \<and> handleFileUpload example_world second_pdf_message ''u1'' 7
        \<lparr>sessions = [(''u1'', compare_session)], outbox = [], attempts = 0\<rparr>
       = (None,
          \<lparr>sessions =
             [(''u1'', \<lparr>userId = ''u1'', uploadedFiles = [example_pdf1, example_pdf2],
                        currentStep = ''waiting_for_file'', selectedOperation = Some ''compare_pdf'',
                        metadata = [], lastActivity = 7\<rparr>)],
           outbox = [Text ''Downloading file...'', FileReceived 2], attempts = 2\<rparr>)
   \<and> (\<exists>s'. map_of (sessions (snd (handleFileUpload example_world second_pdf_message ''u1'' 7
                     \<lparr>sessions = [(''u1'', compare_session)], outbox = [], attempts = 0\<rparr>))) ''u1''
               = Some s'
             \<and> currentStep s' = ''waiting_for_file'')"
proof -
  let ?st = "\<lparr>sessions = [(''u1'', compare_session)], outbox = [], attempts = 0\<rparr>"
  have stored: "map_of (sessions ?st) ''u1'' = Some compare_session" by simp
  have op: "selectedOperation compare_session = Some ''compare_pdf''"
    by (simp add: compare_session_def)
  have files: "uploadedFiles compare_session = [example_pdf1]"
    by (simp add: compare_session_def)
  have step: "currentStep compare_session = ''waiting_for_file''"
    by (simp add: compare_session_def)
  from C1_upload_never_runs_comparison
         [OF stored op, of example_world second_pdf_message 7]
  have still: "\<exists>s'. map_of (sessions (snd (handleFileUpload example_world second_pdf_message
                                              ''u1'' 7 ?st))) ''u1'' = Some s'
                    \<and> currentStep s' = ''waiting_for_file''"
    unfolding step by blast
  have result: "handleFileUpload example_world second_pdf_message ''u1'' 7 ?st
       = (None,
          \<lparr>sessions =
             [(''u1'', \<lparr>userId = ''u1'', uploadedFiles = [example_pdf1, example_pdf2],
                        currentStep = ''waiting_for_file'', selectedOperation = Some ''compare_pdf'',
                        metadata = [], lastActivity = 7\<rparr>)],
           outbox = [Text ''Downloading file...'', FileReceived 2], attempts = 2\<rparr>)"
    using upload_second_pdf by (simp add: compare_session_def)
  from stored op files result still show ?thesis by blast
qed

end
